theory Spec2Isabelle
  imports Complex_Main
begin

section \<open>The simulation engine of the runner game\<close>

text \<open>
  The development embeds the game logic of the \<open>GameCanvas\<close> component
  (\<open>src/unnamed/part_000\<close>): the lane controls, the procedural track, the per-frame
  \<open>animate\<close> callback and its collision loop. JavaScript numbers that stay finite are
  modelled as \<open>real\<close> (no rounding), counters that only move in whole steps
  (\<open>targetLane\<close>, \<open>healthRef\<close>, obstacle lanes) as \<open>int\<close>. Mesh
  construction, camera, particles, highlight and audio are left out; of the scene graph
  only what the simulation reads back is kept: the \<open>z\<close> position of every segment
  group, and for every obstacle its parent link and its local \<open>z\<close>.
  The component is taken as mounted: \<open>worldGroupRef\<close> and \<open>playerRef\<close> are set.
\<close>

subsection \<open>Enumerations (types.ts and the ObstacleType enum)\<close>

datatype GamePhase = FLAT | ROUND | TUNNEL_GLOWING | TUNNEL_CLEAN

datatype GameState = MENU | PLAYING | PAUSED | GAME_OVER | LEVEL_COMPLETE

datatype ObstacleType =
  SIMPLE | WALL | INSTA_DEATH | BULLET | DOOR | BALL | HEART | SPEED_BOOST | CLOCK_BLUE | EXTRUDING

text \<open>The argument of the \<open>onEvent\<close> callback.\<close>

datatype EventKind = DAMAGE | COLLECT | BOOST

subsection \<open>Constants\<close>

definition SPEED_BASE :: real where "SPEED_BASE = 16"
definition JUMP_FORCE :: real where "JUMP_FORCE = 40"
definition GRAVITY :: real where "GRAVITY = - 155"
definition LANE_WIDTH :: real where "LANE_WIDTH = 3"
definition SEGMENT_LENGTH :: real where "SEGMENT_LENGTH = 8"
definition MAX_HEALTH :: int where "MAX_HEALTH = 100"
definition PHASE_DURATION :: real where "PHASE_DURATION = 60"
definition LANE_COUNT_FLAT :: int where "LANE_COUNT_FLAT = 7"
definition LANE_COUNT_ROUND :: int where "LANE_COUNT_ROUND = 12"

subsection \<open>Obstacles and the game state\<close>

text \<open>
  \<open>ObstacleData\<close>. The mesh is reduced to \<open>parent\<close> (the id of the segment group
  the mesh hangs under, \<open>None\<close> once removed) and \<open>meshZ\<close> (its local \<open>z\<close>).
  Of \<open>params\<close>, \<open>speed\<close> and \<open>vertical\<close> are kept. \<open>range\<close>, \<open>offset\<close>
  and \<open>growState\<close> are never read. \<open>freq\<close> and \<open>phase\<close> are read by the bounce
  of a BALL only (lines 1251 to 1256), which sets the height of its mesh to
  \<open>obs.width / 2\<close> plus an offset, for display; that height is not read back, and the
  bounce is left out with it.
\<close>

record ObstacleData =
  parent :: "nat option"
  meshZ :: real
  otype :: ObstacleType
  lane :: int
  width :: real
  exploded :: bool
  speed :: real
  vertical :: bool

text \<open>
  The refs of the component. \<open>segZ\<close> is the store of segment groups (position \<open>z\<close> by
  id; a retired group keeps its last value, since obstacles may still hang under it),
  \<open>segmentsRef\<close> the array of live groups by id, \<open>nextSeg\<close> the next fresh id.
  \<open>rng\<close> is the stream of values \<open>Math.random()\<close> returns to \<open>spawnSegment\<close>
  and \<open>spawnObstacle\<close>, and \<open>rngPos\<close> how many of them were drawn; the draws of the
  camera shake, the explosion particles, the stars and the audio noise come in between
  in the browser, are read by display and sound only, and are not part of the stream.
  \<open>events\<close> and \<open>stateRequests\<close> log the calls of \<open>onEvent\<close> and
  \<open>setGameState\<close> made by the component, oldest first.
\<close>

record Game =
  scoreRef :: real
  timeRef :: real
  phaseRef :: GamePhase
  levelRef :: int
  healthRef :: int
  gameStateRef :: GameState
  currentLane :: real
  targetLane :: int
  playerVelY :: real
  isJumping :: bool
  jumpHeight :: real
  speedMultRef :: real
  speedTimerRef :: real
  gameTimeRef :: real
  lastTimeRef :: real
  emptyModeRef :: bool
  segmentsRef :: "nat list"
  segZ :: "nat \<Rightarrow> real"
  nextSeg :: nat
  obstaclesRef :: "ObstacleData list"
  rng :: "nat \<Rightarrow> real"
  rngPos :: nat
  events :: "EventKind list"
  stateRequests :: "GameState list"

subsection \<open>Lane control\<close>

text \<open>\<open>changeLane\<close>: clamp on the flat track, wrap at the ends of the ring otherwise.\<close>

definition changeLane :: "int \<Rightarrow> Game \<Rightarrow> Game" where
  "changeLane dir g =
     (let next = targetLane g + dir;
          next =
            (if phaseRef g = FLAT then
               (let mx = 3;
                    next = (if next < - mx then - mx else next);
                    next = (if next > mx then mx else next)
                in next)
             else
               (let limit = (if phaseRef g = ROUND then LANE_COUNT_ROUND else 12);
                    next = (if next < 0 then limit - 1 else next);
                    next = (if next \<ge> limit then 0 else next)
                in next))
      in g\<lparr>targetLane := next\<rparr>)"

text \<open>\<open>doJump\<close>.\<close>

definition doJump :: "Game \<Rightarrow> Game" where
  "doJump g =
     (if \<not> isJumping g then g\<lparr>isJumping := True, playerVelY := JUMP_FORCE\<rparr> else g)"

subsection \<open>The frame clock\<close>

text \<open>
  The time stamp handed to \<open>animate\<close> is a JavaScript number. To follow a stamp that
  is not finite through lines 1023 to 1025, numbers are modelled here with their three
  non-finite values; finite values are exact reals (rounding and overflow of finite
  arithmetic are not modelled).
\<close>

datatype jsnum = NaN | NegInf | Fin real | PosInf

fun js_sub :: "jsnum \<Rightarrow> jsnum \<Rightarrow> jsnum" where
  "js_sub NaN _ = NaN"
| "js_sub _ NaN = NaN"
| "js_sub (Fin a) (Fin b) = Fin (a - b)"
| "js_sub (Fin a) PosInf = NegInf"
| "js_sub (Fin a) NegInf = PosInf"
| "js_sub PosInf PosInf = NaN"
| "js_sub PosInf _ = PosInf"
| "js_sub NegInf NegInf = NaN"
| "js_sub NegInf _ = NegInf"

text \<open>Division by a finite positive constant, and \<open>x > c\<close> for a finite constant.\<close>

fun js_div :: "jsnum \<Rightarrow> real \<Rightarrow> jsnum" where
  "js_div (Fin a) c = Fin (a / c)"
| "js_div x c = x"

fun js_gt :: "jsnum \<Rightarrow> real \<Rightarrow> bool" where
  "js_gt (Fin a) c = (a > c)"
| "js_gt PosInf c = True"
| "js_gt x c = False"

definition isNaN :: "jsnum \<Rightarrow> bool" where
  "isNaN x = (x = NaN)"

text \<open>
  \<open>frameDelta time lastTime\<close> is the value of \<open>delta\<close> after
  \<^verbatim>\<open>let delta = (time - lastTimeRef.current)/1000;
  if (isNaN(delta) || delta > 0.1) delta = 0.1;\<close>
\<close>

definition frameDelta :: "jsnum \<Rightarrow> jsnum \<Rightarrow> jsnum" where
  "frameDelta time lastTime =
     (let delta = js_div (js_sub time lastTime) 1000
      in if isNaN delta \<or> js_gt delta (1 / 10) then Fin (1 / 10) else delta)"

subsection \<open>Random draws\<close>

text \<open>\<open>Math.random()\<close>: the next value of the stream.\<close>

definition random :: "Game \<Rightarrow> real \<times> Game" where
  "random g = (rng g (rngPos g), g\<lparr>rngPos := rngPos g + 1\<rparr>)"

subsection \<open>Procedural track\<close>

text \<open>The cumulative table of \<open>spawnObstacle\<close> (lines 739 to 748).\<close>

definition pickType :: "real \<Rightarrow> ObstacleType" where
  "pickType r =
     (if r > 95 / 100 then HEART
      else if r > 90 / 100 then SPEED_BOOST
      else if r > 85 / 100 then CLOCK_BLUE
      else if r > 75 / 100 then BULLET
      else if r > 65 / 100 then EXTRUDING
      else if r > 55 / 100 then WALL
      else if r > 40 / 100 then DOOR
      else if r > 25 / 100 then BALL
      else SIMPLE)"

text \<open>The lane drawn first in \<open>spawnObstacle\<close> (lines 732 to 737).\<close>

definition pickLane :: "GamePhase \<Rightarrow> real \<Rightarrow> int" where
  "pickLane ph r =
     (if ph = FLAT then \<lfloor>r * real_of_int LANE_COUNT_FLAT\<rfloor> - 3
      else \<lfloor>r * real_of_int LANE_COUNT_ROUND\<rfloor>)"

text \<open>The positioning logic: \<open>tileRow\<close> and \<open>zPos\<close> (lines 922 and 923).\<close>

definition tileRowOf :: "real \<Rightarrow> int" where
  "tileRowOf r = \<lfloor>r * 4\<rfloor>"

definition zPosOf :: "int \<Rightarrow> real" where
  "zPosOf tileRow = (real_of_int tileRow * LANE_WIDTH) + (LANE_WIDTH / 2)"

text \<open>
  \<open>spawnObstacle\<close>, with the draws in the order the source makes them: lane, type, the
  shape of an EXTRUDING obstacle (used for its mesh only), tile row, and the two draws
  for \<open>freq\<close> and \<open>phase\<close>. The argument is the id of the segment group the
  obstacle is added to.
\<close>

definition spawnObstacle :: "nat \<Rightarrow> Game \<Rightarrow> Game" where
  "spawnObstacle par g =
     (if emptyModeRef g then g
      else
        (let (r1, g) = random g;
             lan = pickLane (phaseRef g) r1;
             (r, g) = random g;
             ty = pickType r;
             collisionWidth = (if ty = DOOR then 2 else 1);
             g = (if ty = EXTRUDING then snd (random g) else g);
             (r4, g) = random g;
             zPos = zPosOf (tileRowOf r4);
             g = snd (random g);
             g = snd (random g)
         in g\<lparr>obstaclesRef := obstaclesRef g @
              [\<lparr>parent = Some par, meshZ = zPos, otype = ty, lane = lan,
                width = collisionWidth, exploded = False,
                speed = SPEED_BASE * 2, vertical = False\<rparr>]\<rparr>))"

text \<open>The loop \<open>for (let k = 0; k < spawnCount; k++) spawnObstacle(g)\<close>.\<close>

fun spawnObstacles :: "nat \<Rightarrow> nat \<Rightarrow> Game \<Rightarrow> Game" where
  "spawnObstacles 0 par g = g"
| "spawnObstacles (Suc k) par g = spawnObstacles k par (spawnObstacle par g)"

text \<open>
  \<open>spawnSegment\<close>: a new group at \<open>z = - zPos\<close>, populated unless empty mode is on,
  then pushed on \<open>segmentsRef\<close>. The second draw of \<open>spawnCount\<close> is made only when the
  first is below 0.9.
\<close>

definition spawnSegment :: "real \<Rightarrow> Game \<Rightarrow> Game" where
  "spawnSegment zPos g =
     (let i = nextSeg g;
          g = g\<lparr>segZ := (segZ g)(i := - zPos), nextSeg := i + 1\<rparr>
      in if emptyModeRef g then g\<lparr>segmentsRef := segmentsRef g @ [i]\<rparr>
         else
           (let (ra, g) = random g;
                (spawnCount, g) =
                  (if ra < 9 / 10 then
                     (let (rb, g) = random g in (if rb < 5 / 10 then 1 else 2, g))
                   else (0, g));
                g = spawnObstacles spawnCount i g
            in g\<lparr>segmentsRef := segmentsRef g @ [i]\<rparr>))"

text \<open>\<open>resetGame\<close>; the last line spawns the segments \<open>i = -10, ..., 29\<close>.\<close>

definition resetGame :: "bool \<Rightarrow> Game \<Rightarrow> Game" where
  "resetGame fullReset g =
     (let g = (if fullReset
               then g\<lparr>scoreRef := 0, levelRef := 1, healthRef := MAX_HEALTH, phaseRef := ROUND\<rparr>
               else g);
          g = g\<lparr>timeRef := PHASE_DURATION, targetLane := 0, currentLane := 0,
                 playerVelY := 0, isJumping := False, speedMultRef := 1, gameTimeRef := 0,
                 segmentsRef := [], obstaclesRef := [], jumpHeight := 0\<rparr>
      in foldl (\<lambda>g i. spawnSegment (real_of_int i * SEGMENT_LENGTH) g) g [- 10 .. 29])"

definition nextLevel :: "Game \<Rightarrow> Game" where
  "nextLevel g =
     (let g = g\<lparr>levelRef := levelRef g + 1\<rparr>;
          g = (if phaseRef g = ROUND then g\<lparr>phaseRef := TUNNEL_GLOWING\<rparr>
               else if phaseRef g = TUNNEL_GLOWING then g\<lparr>phaseRef := TUNNEL_CLEAN\<rparr>
               else if phaseRef g = TUNNEL_CLEAN then g\<lparr>phaseRef := FLAT\<rparr>
               else g\<lparr>phaseRef := ROUND\<rparr>)
      in resetGame False g)"

text \<open>The effects that sync the props \<open>debugEmptyMode\<close>, \<open>debugPhase\<close>,
  \<open>renderStyle\<close> and \<open>gameState\<close> (lines 188 to 211).\<close>

definition syncEmptyMode :: "bool \<Rightarrow> Game \<Rightarrow> Game" where
  "syncEmptyMode debugEmptyMode g =
     (let g = g\<lparr>emptyModeRef := debugEmptyMode\<rparr>
      in if debugEmptyMode \<and> length (obstaclesRef g) > 0 then g\<lparr>obstaclesRef := []\<rparr> else g)"

definition syncDebugPhase :: "GamePhase \<Rightarrow> Game \<Rightarrow> Game" where
  "syncDebugPhase debugPhase g =
     (if debugPhase \<noteq> phaseRef g then resetGame False (g\<lparr>phaseRef := debugPhase\<rparr>) else g)"

definition syncRenderStyle :: "Game \<Rightarrow> Game" where
  "syncRenderStyle g = resetGame False g"

definition syncGameState :: "GameState \<Rightarrow> Game \<Rightarrow> Game" where
  "syncGameState gameState g = g\<lparr>gameStateRef := gameState\<rparr>"

subsection \<open>The frame callback\<close>

text \<open>\<open>THREE.MathUtils.lerp\<close>, \<open>Math.round\<close> and the remainder operator on integers
  (the sign of the result is the sign of the dividend; the divisor is positive here).\<close>

definition lerp :: "real \<Rightarrow> real \<Rightarrow> real \<Rightarrow> real" where
  "lerp x y t = (1 - t) * x + t * y"

definition jsRound :: "real \<Rightarrow> int" where
  "jsRound x = \<lfloor>x + 1 / 2\<rfloor>"

definition jsRem :: "int \<Rightarrow> int \<Rightarrow> int" where
  "jsRem a b = (if a < 0 then - ((- a) mod b) else a mod b)"

text \<open>
  \<open>lerpCyclic\<close> (lines 1136 to 1141). Its two \<open>while\<close> loops need not end for every
  \<open>max\<close>, so each is a partial function and \<open>None\<close> stands for a loop that runs
  forever.
\<close>

partial_function (option) wrapDown :: "real \<Rightarrow> real \<Rightarrow> real option" where
  "wrapDown diff mx = (if diff > mx / 2 then wrapDown (diff - mx) mx else Some diff)"

partial_function (option) wrapUp :: "real \<Rightarrow> real \<Rightarrow> real option" where
  "wrapUp diff mx = (if diff < - mx / 2 then wrapUp (diff + mx) mx else Some diff)"

declare wrapDown.simps [code]
declare wrapUp.simps [code]

definition lerpCyclic :: "real \<Rightarrow> real \<Rightarrow> real \<Rightarrow> real \<Rightarrow> real option" where
  "lerpCyclic current target spd mx =
     (case wrapDown (target - current) mx of
        None \<Rightarrow> None
      | Some diff \<Rightarrow>
          (case wrapUp diff mx of
             None \<Rightarrow> None
           | Some diff \<Rightarrow> Some (current + diff * spd)))"

text \<open>The segment loop of \<open>animate\<close>: every live group moves by \<open>dist\<close> (lines 1109
  and 1110), then at most one group is recycled (lines 1125 to 1130).\<close>

definition moveSegments :: "real \<Rightarrow> Game \<Rightarrow> Game" where
  "moveSegments dst g =
     g\<lparr>segZ := foldl (\<lambda>z s. z(s := z s + dst)) (segZ g) (segmentsRef g)\<rparr>"

definition recycleSegments :: "Game \<Rightarrow> Game" where
  "recycleSegments g =
     (case segmentsRef g of
        [] \<Rightarrow> g
      | s # rest \<Rightarrow>
          if segZ g s > 100 then
            (let g = g\<lparr>segmentsRef := rest\<rparr>
             in if rest = [] then g
                else spawnSegment (- segZ g (last rest) + SEGMENT_LENGTH) g)
          else g)"

text \<open>The vertical physics (lines 1203 to 1213).\<close>

definition jumpPhysics :: "real \<Rightarrow> Game \<Rightarrow> Game" where
  "jumpPhysics dt g =
     (if isJumping g then
        (let g = g\<lparr>jumpHeight := jumpHeight g + playerVelY g * dt\<rparr>;
             g = g\<lparr>playerVelY := playerVelY g + GRAVITY * dt\<rparr>
         in if jumpHeight g \<le> 0
            then g\<lparr>jumpHeight := 0, isJumping := False, playerVelY := 0\<rparr>
            else g)
      else g)"

text \<open>The effect of a hit by obstacle type (lines 1291 to 1311) and the check that
  follows the removal of the obstacle (lines 1317 to 1319).\<close>

definition applyEffect :: "ObstacleType \<Rightarrow> Game \<Rightarrow> Game" where
  "applyEffect ty g =
     (if ty = HEART then
        g\<lparr>healthRef := min MAX_HEALTH (healthRef g + 20), events := events g @ [COLLECT]\<rparr>
      else if ty = SPEED_BOOST then
        g\<lparr>scoreRef := scoreRef g + 500, events := events g @ [BOOST]\<rparr>
      else if ty = CLOCK_BLUE then
        g\<lparr>speedMultRef := 1 / 2, speedTimerRef := 5, events := events g @ [COLLECT]\<rparr>
      else
        g\<lparr>healthRef := healthRef g - 20, events := events g @ [DAMAGE]\<rparr>)"

definition checkGameOver :: "Game \<Rightarrow> Game" where
  "checkGameOver g =
     (if healthRef g \<le> 0 then g\<lparr>stateRequests := stateRequests g @ [GAME_OVER]\<rparr> else g)"

text \<open>
  The lane of the player as the collision loop compares it (lines 1278 to 1282).
\<close>

definition playerLane :: "Game \<Rightarrow> int" where
  "playerLane g =
     (let pLane = jsRound (currentLane g)
      in if phaseRef g = ROUND
         then (let pLane = (if pLane < 0 then pLane + 12 else pLane) in jsRem pLane 12)
         else pLane)"

text \<open>
  The body of \<open>obstaclesRef.current.forEach\<close> (lines 1223 to 1321) for one obstacle,
  in four parts. \<open>moveObstacle\<close> is the motion by type: a BULLET advances (lines 1247
  to 1249); the highlight of SPEED_BOOST, the pulse of CLOCK_BLUE and the bounce of BALL
  change materials, scale and height only. \<open>obsWorldZ\<close> is the \<open>z\<close> of
  \<open>getWorldPosition\<close>: the \<open>z\<close> of the parent group plus the mesh's own, since the
  world group stays at \<open>z = 0\<close> and turns about the \<open>z\<close> axis only. \<open>isHit\<close> is
  the lane check and the vertical check (lines 1278 to 1289). \<open>removeObstacle\<close> is
  lines 1269 and 1270, and again 1314 and 1315.
\<close>

definition moveObstacle :: "real \<Rightarrow> ObstacleData \<Rightarrow> ObstacleData" where
  "moveObstacle dt obs =
     (if otype obs = BULLET then obs\<lparr>meshZ := meshZ obs + speed obs * dt\<rparr> else obs)"

definition obsWorldZ :: "Game \<Rightarrow> ObstacleData \<Rightarrow> real" where
  "obsWorldZ g obs =
     (case parent obs of None \<Rightarrow> meshZ obs | Some par \<Rightarrow> segZ g par + meshZ obs)"

definition isHit :: "real \<Rightarrow> ObstacleData \<Rightarrow> Game \<Rightarrow> bool" where
  "isHit jH obs g =
     (let isSameLane = (playerLane g = lane obs);
          obsHeight = 15 / 10;
          clearedJump = (jH > obsHeight \<and> \<not> vertical obs)
      in isSameLane \<and> \<not> clearedJump)"

definition removeObstacle :: "ObstacleData \<Rightarrow> ObstacleData" where
  "removeObstacle obs = obs\<lparr>exploded := True, parent := None\<rparr>"

text \<open>Arguments: \<open>dt\<close> and the jump height \<open>jH\<close> of this frame.\<close>

definition collideObstacle ::
    "real \<Rightarrow> real \<Rightarrow> ObstacleData \<Rightarrow> Game \<Rightarrow> ObstacleData \<times> Game" where
  "collideObstacle dt jH obs g =
     (if exploded obs \<or> parent obs = None then (obs, g)
      else
        (let obs = moveObstacle dt obs;
             distZ = obsWorldZ g obs - 4
         in if distZ > 2 then
              (if distZ > 10 then (removeObstacle obs, g) else (obs, g))
            else if \<bar>distZ\<bar> < 12 / 10 then
              (if isHit jH obs g then
                 (let g = applyEffect (otype obs) g;
                      obs = removeObstacle obs
                  in (obs, checkGameOver g))
               else (obs, g))
            else (obs, g)))"

fun collideAll ::
    "real \<Rightarrow> real \<Rightarrow> ObstacleData list \<Rightarrow> Game \<Rightarrow> ObstacleData list \<times> Game" where
  "collideAll dt jH [] g = ([], g)"
| "collideAll dt jH (obs # rest) g =
     (let (obs, g) = collideObstacle dt jH obs g;
          (rest, g) = collideAll dt jH rest g
      in (obs # rest, g))"

text \<open>
  The branch \<open>gameStateRef.current === GameState.PLAYING\<close> of \<open>animate\<close>, in
  the order of the source: score, timer and track (lines 1100 to 1131), lane easing
  (lines 1133 to 1147), vertical physics, and the collision loop over \<open>obstaclesRef\<close>
  with the jump height of this frame (lines 1215 to 1322).
\<close>

definition trackStep :: "real \<Rightarrow> real \<Rightarrow> Game \<Rightarrow> Game" where
  "trackStep delta dt g =
     (let dst = SPEED_BASE * dt;
          g = g\<lparr>scoreRef := scoreRef g + dst, timeRef := timeRef g - delta\<rparr>;
          g = (if timeRef g \<le> 0
               then g\<lparr>stateRequests := stateRequests g @ [LEVEL_COMPLETE]\<rparr> else g)
      in if length (segmentsRef g) > 0
         then recycleSegments (moveSegments dst g) else g)"

definition easeLane :: "real \<Rightarrow> Game \<Rightarrow> Game option" where
  "easeLane dt g =
     (let playerLerpSpeed = 12 * dt;
          tLane = real_of_int (targetLane g)
      in if phaseRef g = FLAT
         then Some (g\<lparr>currentLane := lerp (currentLane g) tLane playerLerpSpeed\<rparr>)
         else
           (case lerpCyclic (currentLane g) tLane playerLerpSpeed 12 of
              None \<Rightarrow> None
            | Some cl \<Rightarrow> Some (g\<lparr>currentLane := cl\<rparr>)))"

definition collisionStep :: "real \<Rightarrow> Game \<Rightarrow> Game" where
  "collisionStep dt g =
     (let jH = jumpHeight g;
          (obs, g) = collideAll dt jH (obstaclesRef g) g
      in g\<lparr>obstaclesRef := obs\<rparr>)"

definition playingStep :: "real \<Rightarrow> real \<Rightarrow> Game \<Rightarrow> Game option" where
  "playingStep delta dt g =
     (case easeLane dt (trackStep delta dt g) of
        None \<Rightarrow> None
      | Some g \<Rightarrow> Some (collisionStep dt (jumpPhysics dt g)))"

text \<open>
  \<open>animate\<close> for a finite time stamp, from the pause check on. \<open>clockStep\<close> is
  lines 1023 to 1037: it yields \<open>delta\<close>, \<open>dt\<close> and the state with the clocks
  advanced. For finite numbers \<open>isNaN(delta)\<close> is false, so only the upper clamp of
  \<open>frameDelta\<close> is left.
\<close>

definition clockStep :: "real \<Rightarrow> Game \<Rightarrow> real \<times> real \<times> Game" where
  "clockStep time g =
     (let delta = (time - lastTimeRef g) / 1000;
          g = g\<lparr>lastTimeRef := time\<rparr>;
          delta = (if delta > 1 / 10 then 1 / 10 else delta);
          spd = speedMultRef g;
          dt = delta * spd;
          g = g\<lparr>gameTimeRef := gameTimeRef g + dt\<rparr>;
          g = (if speedTimerRef g > 0 then
                 (let g = g\<lparr>speedTimerRef := speedTimerRef g - delta\<rparr>
                  in if speedTimerRef g \<le> 0 then g\<lparr>speedMultRef := 1\<rparr> else g)
               else g)
      in (delta, dt, g))"

definition animate :: "real \<Rightarrow> Game \<Rightarrow> Game option" where
  "animate time g =
     (if gameStateRef g = PAUSED then Some g
      else
        (let (delta, dt, g) = clockStep time g
         in if gameStateRef g = PLAYING then playingStep delta dt g else Some g))"

subsection \<open>Driving the component\<close>

text \<open>
  What the outside can do to the component: a frame, the five methods of its handle, and
  a change of one of the four props that are synced into refs.
\<close>

datatype Action =
  Frame real | MoveLeft | MoveRight | Jump | StartNewGame | StartNextLevel
  | PropGameState GameState | PropDebugPhase GamePhase | PropEmptyMode bool | PropRenderStyle

fun perform :: "Action \<Rightarrow> Game \<Rightarrow> Game option" where
  "perform (Frame time) g = animate time g"
| "perform MoveLeft g = Some (changeLane (- 1) g)"
| "perform MoveRight g = Some (changeLane 1 g)"
| "perform Jump g = Some (doJump g)"
| "perform StartNewGame g = Some (resetGame True g)"
| "perform StartNextLevel g = Some (nextLevel g)"
| "perform (PropGameState st) g = Some (syncGameState st g)"
| "perform (PropDebugPhase ph) g = Some (syncDebugPhase ph g)"
| "perform (PropEmptyMode b) g = Some (syncEmptyMode b g)"
| "perform PropRenderStyle g = Some (syncRenderStyle g)"

fun run :: "Action list \<Rightarrow> Game \<Rightarrow> Game option" where
  "run [] g = Some g"
| "run (a # rest) g = (case perform a g of None \<Rightarrow> None | Some g' \<Rightarrow> run rest g')"

text \<open>The refs as \<open>useRef\<close> initialises them, for a stream of random values.\<close>

definition initialGame :: "(nat \<Rightarrow> real) \<Rightarrow> Game" where
  "initialGame rs =
     \<lparr>scoreRef = 0, timeRef = PHASE_DURATION, phaseRef = ROUND, levelRef = 1,
      healthRef = MAX_HEALTH, gameStateRef = MENU, currentLane = 0, targetLane = 0,
      playerVelY = 0, isJumping = False, jumpHeight = 0, speedMultRef = 1,
      speedTimerRef = 0, gameTimeRef = 0, lastTimeRef = 0, emptyModeRef = False,
      segmentsRef = [], segZ = (\<lambda>_. 0), nextSeg = 0, obstaclesRef = [],
      rng = rs, rngPos = 0, events = [], stateRequests = []\<rparr>"

subsection \<open>Observations used in the statements\<close>

text \<open>
  An obstacle as \<open>spawnObstacle\<close> pushes it, of a given type, in a given lane, at a
  given local \<open>z\<close>, under the segment group with id 0.
\<close>

definition obstacleAt :: "ObstacleType \<Rightarrow> int \<Rightarrow> real \<Rightarrow> ObstacleData" where
  "obstacleAt ty l z =
     \<lparr>parent = Some 0, meshZ = z, otype = ty, lane = l,
      width = (if ty = DOOR then 2 else 1), exploded = False, speed = SPEED_BASE * 2,
      vertical = False\<rparr>"

text \<open>What a resolution can change: health, score, speed multiplier and its timer, and
  the calls of \<open>onEvent\<close> and \<open>setGameState\<close>.\<close>

definition observed ::
    "Game \<Rightarrow> int \<times> real \<times> real \<times> real \<times> EventKind list \<times> GameState list" where
  "observed g =
     (healthRef g, scoreRef g, speedMultRef g, speedTimerRef g, events g, stateRequests g)"

text \<open>
  One obstacle followed through a sequence of frames. Each frame comes with its
  \<open>dt\<close>, its jump height and the game state the loop finds when it reaches the
  obstacle; all of them are arbitrary, so every interleaving with other obstacles,
  controls and frames is covered. \<open>resolutions\<close> counts the frames in which the loop
  body changes what \<open>observed\<close> shows.
\<close>

fun resolutions :: "(real \<times> real \<times> Game) list \<Rightarrow> ObstacleData \<Rightarrow> nat" where
  "resolutions [] obs = 0"
| "resolutions ((dt, jH, g) # rest) obs =
     (let (obs', g') = collideObstacle dt jH obs g
      in (if observed g' \<noteq> observed g then 1 else 0) + resolutions rest obs')"

text \<open>Two invariants of the game state: health is a multiple of 20 and at most 100;
  no obstacle in \<open>obstaclesRef\<close> has \<open>params.vertical\<close> set.\<close>

definition healthy :: "Game \<Rightarrow> bool" where
  "healthy g = (healthRef g \<le> 100 \<and> 20 dvd healthRef g)"

definition flatParams :: "Game \<Rightarrow> bool" where
  "flatParams g = list_all (\<lambda>ob. \<not> vertical ob) (obstaclesRef g)"

text \<open>What the lane check looks at: the phase, the target lane, the lane of the player
  as compared, and for every obstacle its type, lane, \<open>exploded\<close> flag and the distance
  \<open>distZ\<close> of line 1264.\<close>

definition laneView ::
    "Game \<Rightarrow> GamePhase \<times> int \<times> int \<times> (ObstacleType \<times> int \<times> bool \<times> real) list" where
  "laneView g =
     (phaseRef g, targetLane g, playerLane g,
      map (\<lambda>ob. (otype ob, lane ob, exploded ob, obsWorldZ g ob - 4)) (obstaclesRef g))"

text \<open>
  Three streams of random values. With \<open>hitStream\<close> a new game has six obstacles, all
  in lane 0: two DOORs in row 0 of the segment at \<open>z = 0\<close>, two DOORs in row 3 of the
  next segment and two BULLETs in row 3 of the one after. With \<open>wallStream k\<close> the
  draws from position \<open>k\<close> on make one segment with one WALL in lane 11, row 0, and
  every other segment is empty. With \<open>ballStream\<close> the first obstacle spawned is a BALL
  in lane 3, row 1.
\<close>

definition hitStream :: "nat \<Rightarrow> real" where
  "hitStream n =
     (if n \<in> {12, 14, 17, 19, 24, 29, 36, 41} then 0
      else if n \<in> {37, 42} then 4 / 5
      else if n \<in> {26, 31, 38, 43} then 19 / 20
      else if 10 \<le> n \<and> n < 46 then 1 / 2
      else 19 / 20)"

definition wallStream :: "nat \<Rightarrow> nat \<Rightarrow> real" where
  "wallStream k n =
     (if n = k then 1 / 2 else if n = k + 1 then 3 / 10 else if n = k + 3 then 6 / 10
      else if n = k + 4 then 1 / 10 else 19 / 20)"

definition ballStream :: "nat \<Rightarrow> real" where
  "ballStream n = 3 / 10"

section \<open>Lane requests\<close>

text \<open>
  C8. A lane request of \<open>-1\<close> or \<open>+1\<close> clamps the target lane to \<open>[-3, 3]\<close> on the
  FLAT track and wraps it modulo 12 on the three cyclic tracks; so on a cyclic track a
  step right followed by a step left returns to the lane it started from, and on the FLAT
  track a step right from lane 3 stays at lane 3.
\<close>

theorem changeLane_clamps_and_wraps:
  "(phaseRef g = FLAT \<longrightarrow>
      targetLane (changeLane dir g) = max (- 3) (min 3 (targetLane g + dir)))
   \<and> (phaseRef g \<noteq> FLAT \<and> 0 \<le> targetLane g \<and> targetLane g < 12 \<and> dir \<in> {- 1, 1} \<longrightarrow>
      targetLane (changeLane dir g) = (targetLane g + dir) mod 12
      \<and> targetLane (changeLane (- 1) (changeLane 1 g)) = targetLane g)
   \<and> (phaseRef g = FLAT \<and> targetLane g = 3 \<longrightarrow> targetLane (changeLane 1 g) = 3)"
  by (auto simp: changeLane_def LANE_COUNT_ROUND_def Let_def; presburger)

text \<open>The same at lane 11 of the tube, and at lane 3 of the flat track.\<close>

theorem changeLane_clamps_and_wraps_witness:
  "targetLane (changeLane 1 ((initialGame (\<lambda>_. 0))\<lparr>targetLane := 11\<rparr>)) = 0
   \<and> targetLane (changeLane (- 1) (changeLane 1 ((initialGame (\<lambda>_. 0))\<lparr>targetLane := 11\<rparr>))) = 11
   \<and> targetLane (changeLane 1 ((initialGame (\<lambda>_. 0))\<lparr>phaseRef := FLAT, targetLane := 3\<rparr>)) = 3"
  using changeLane_clamps_and_wraps [of "(initialGame (\<lambda>_. 0))\<lparr>targetLane := 11\<rparr>" 1]
    changeLane_clamps_and_wraps [of "(initialGame (\<lambda>_. 0))\<lparr>phaseRef := FLAT, targetLane := 3\<rparr>" 1]
  by (simp add: initialGame_def)

section \<open>The frame delta\<close>

lemma frameDelta_Fin:
  "frameDelta (Fin a) (Fin b) =
     Fin (if (a - b) / 1000 > 1 / 10 then 1 / 10 else (a - b) / 1000)"
  by (simp add: frameDelta_def isNaN_def Let_def)

text \<open>For finite time stamps the delta of \<open>clockStep\<close> is the one of
  \<open>frameDelta\<close>.\<close>

lemma clockStep_delta:
  "Fin (fst (clockStep time g)) = frameDelta (Fin time) (Fin (lastTimeRef g))"
  by (simp add: clockStep_def Let_def frameDelta_Fin)

text \<open>
  C3, as the code has it. The delta is replaced, by 0.1, exactly when it is NaN or
  above 0.1 (so also when it is \<open>+Infinity\<close>); any other delta is passed on as it
  is: a finite delta of at most 0.1, negative ones included, unchanged, and
  \<open>-Infinity\<close> as \<open>-Infinity\<close>. The delta that is integrated is therefore never
  NaN, never \<open>+Infinity\<close> and never above 0.1, and when both time stamps are finite
  and the new one is not the earlier one, it is finite and lies in \<open>[0, 0.1]\<close>.
\<close>

theorem frameDelta_upper_clamp:
  "frameDelta t l \<noteq> NaN \<and> frameDelta t l \<noteq> PosInf
   \<and> (\<forall>d. frameDelta t l = Fin d \<longrightarrow> d \<le> 1 / 10)
   \<and> (b \<le> a \<longrightarrow> (\<exists>d. frameDelta (Fin a) (Fin b) = Fin d \<and> 0 \<le> d \<and> d \<le> 1 / 10))
   \<and> frameDelta t l =
        (if isNaN (js_div (js_sub t l) 1000) \<or> js_gt (js_div (js_sub t l) 1000) (1 / 10)
         then Fin (1 / 10) else js_div (js_sub t l) 1000)
   \<and> ((u - v) / 1000 \<le> 1 / 10 \<longrightarrow> frameDelta (Fin u) (Fin v) = Fin ((u - v) / 1000))
   \<and> ((u - v) / 1000 > 1 / 10 \<longrightarrow> frameDelta (Fin u) (Fin v) = Fin (1 / 10))
   \<and> frameDelta NegInf (Fin v) = NegInf
   \<and> frameDelta (Fin u) PosInf = NegInf
   \<and> frameDelta PosInf (Fin v) = Fin (1 / 10)
   \<and> frameDelta NaN l = Fin (1 / 10)
   \<and> frameDelta t NaN = Fin (1 / 10)"
proof -
  have 1: "frameDelta t l \<noteq> NaN \<and> frameDelta t l \<noteq> PosInf"
    by (cases t; cases l) (simp_all add: frameDelta_def isNaN_def Let_def)
  have 2: "\<forall>d. frameDelta t l = Fin d \<longrightarrow> d \<le> 1 / 10"
    by (cases t; cases l) (auto simp: frameDelta_def isNaN_def Let_def split: if_splits)
  have 3: "b \<le> a \<longrightarrow> (\<exists>d. frameDelta (Fin a) (Fin b) = Fin d \<and> 0 \<le> d \<and> d \<le> 1 / 10)"
  proof (intro impI, cases "(a - b) / 1000 > 1 / 10")
    case True
    then show "\<exists>d. frameDelta (Fin a) (Fin b) = Fin d \<and> 0 \<le> d \<and> d \<le> 1 / 10"
      by (intro exI[of _ "1 / 10"]) (simp add: frameDelta_Fin)
  next
    case False
    assume "b \<le> a"
    with False show "\<exists>d. frameDelta (Fin a) (Fin b) = Fin d \<and> 0 \<le> d \<and> d \<le> 1 / 10"
      by (intro exI[of _ "(a - b) / 1000"]) (simp add: frameDelta_Fin)
  qed
  have 4: "frameDelta t l =
        (if isNaN (js_div (js_sub t l) 1000) \<or> js_gt (js_div (js_sub t l) 1000) (1 / 10)
         then Fin (1 / 10) else js_div (js_sub t l) 1000)"
    by (simp add: frameDelta_def Let_def)
  have 5: "(u - v) / 1000 \<le> 1 / 10 \<longrightarrow> frameDelta (Fin u) (Fin v) = Fin ((u - v) / 1000)"
    by (simp add: frameDelta_Fin)
  have 6: "(u - v) / 1000 > 1 / 10 \<longrightarrow> frameDelta (Fin u) (Fin v) = Fin (1 / 10)"
    by (simp add: frameDelta_Fin)
  have 7: "frameDelta NegInf (Fin v) = NegInf" "frameDelta (Fin u) PosInf = NegInf"
    "frameDelta PosInf (Fin v) = Fin (1 / 10)"
    by (simp_all add: frameDelta_def isNaN_def)
  have 8: "frameDelta NaN l = Fin (1 / 10)"
    by (simp add: frameDelta_def isNaN_def)
  have 9: "frameDelta t NaN = Fin (1 / 10)"
    by (cases t) (simp_all add: frameDelta_def isNaN_def)
  from 1 2 3 4 5 6 7 8 9 show ?thesis by blast
qed

text \<open>A frame 16 ms after the last one, a frame 16 ms before the last one, and a
  frame a whole second after it.\<close>

theorem frameDelta_upper_clamp_witness:
  "(1000 :: real) \<le> 1016
   \<and> frameDelta (Fin 1016) (Fin 1000) = Fin (2 / 125)
   \<and> (2 / 125 :: real) \<le> 1 / 10
   \<and> (\<exists>d. frameDelta (Fin 1016) (Fin 1000) = Fin d \<and> 0 \<le> d \<and> d \<le> 1 / 10)
   \<and> ((0 :: real) - 16) / 1000 \<le> 1 / 10
   \<and> frameDelta (Fin 0) (Fin 16) = Fin ((0 - 16) / 1000)
   \<and> ((2000 :: real) - 1000) / 1000 > 1 / 10
   \<and> frameDelta (Fin 2000) (Fin 1000) = Fin (1 / 10)"
  using frameDelta_upper_clamp
      [where t = "Fin 1016" and l = "Fin 1000" and a = 1016 and b = 1000 and u = 0 and v = 16]
    frameDelta_upper_clamp
      [where t = "Fin 1016" and l = "Fin 1000" and a = 1016 and b = 1000 and u = 2000
         and v = 1000]
  by (simp add: frameDelta_Fin)

text \<open>
  C3 as stated fails: a time stamp of \<open>-Infinity\<close> gives the delta \<open>-Infinity\<close>, and
  a time stamp 16 ms before the last one gives a negative delta; neither is replaced.
\<close>

theorem frameDelta_negative_counterexample:
  "frameDelta NegInf (Fin 0) = NegInf \<and> frameDelta (Fin 0) (Fin 16) = Fin (- 2 / 125)"
  by (simp add: frameDelta_def isNaN_def)

section \<open>The collision loop, one obstacle at a time\<close>

lemma collide_done:
  "exploded obs \<or> parent obs = None \<Longrightarrow> collideObstacle dt jH obs g = (obs, g)"
  by (simp add: collideObstacle_def)

lemma collide_effect_explodes:
  "collideObstacle dt jH obs g = (obs', g') \<Longrightarrow> g' \<noteq> g \<Longrightarrow> exploded obs'"
  by (auto simp: collideObstacle_def Let_def removeObstacle_def split: if_splits)

lemma resolutions_exploded: "exploded obs \<Longrightarrow> resolutions cs obs = 0"
  by (induction cs obs rule: resolutions.induct) (auto simp: collide_done)

lemma moveObstacle_fields [simp]:
  "otype (moveObstacle dt obs) = otype obs"
  "lane (moveObstacle dt obs) = lane obs"
  "vertical (moveObstacle dt obs) = vertical obs"
  "exploded (moveObstacle dt obs) = exploded obs"
  "parent (moveObstacle dt obs) = parent obs"
  "width (moveObstacle dt obs) = width obs"
  by (simp_all add: moveObstacle_def)

lemma moveObstacle_width [simp]:
  "meshZ (moveObstacle dt (obs\<lparr>width := w\<rparr>)) = meshZ (moveObstacle dt obs)"
  by (simp add: moveObstacle_def)

lemma obsWorldZ_width [simp]:
  "obsWorldZ g (moveObstacle dt (obs\<lparr>width := w\<rparr>)) = obsWorldZ g (moveObstacle dt obs)"
  by (simp add: obsWorldZ_def split: option.split)

lemma isHit_width [simp]:
  "isHit jH (moveObstacle dt (obs\<lparr>width := w\<rparr>)) g = isHit jH (moveObstacle dt obs) g"
  by (simp add: isHit_def)

lemma removeObstacle_fields [simp]:
  "exploded (removeObstacle obs) = True"
  "parent (removeObstacle obs) = None"
  "meshZ (removeObstacle obs) = meshZ obs"
  by (simp_all add: removeObstacle_def)

text \<open>
  C1. Followed through any sequence of frames, an obstacle changes health, score, speed
  or the event log in at most one of them; an obstacle that is already marked
  \<open>exploded\<close> changes them in none.
\<close>

theorem at_most_one_resolution:
  "resolutions cs obs \<le> 1 \<and> (exploded obs \<longrightarrow> resolutions cs obs = 0)"
proof -
  have "resolutions cs obs \<le> 1"
  proof (induction cs obs rule: resolutions.induct)
    case (1 obs)
    then show ?case by simp
  next
    case (2 dt jH g rest obs)
    obtain obs' g' where c: "collideObstacle dt jH obs g = (obs', g')"
      by (cases "collideObstacle dt jH obs g")
    show ?case
    proof (cases "observed g' \<noteq> observed g")
      case True
      then have "g' \<noteq> g" by auto
      with c have "exploded obs'" by (rule collide_effect_explodes)
      then have "resolutions rest obs' = 0" by (rule resolutions_exploded)
      with c True show ?thesis by simp
    next
      case False
      with c "2.IH"[of "(obs', g')" obs' g'] show ?thesis by simp
    qed
  qed
  then show ?thesis by (simp add: resolutions_exploded)
qed


text \<open>Two frames find a WALL in the band and in the lane of the player: it resolves in
  the first only. Marked \<open>exploded\<close> beforehand, it resolves in neither.\<close>

theorem at_most_one_resolution_witness:
  "resolutions [(1 / 60, 0, initialGame (\<lambda>_. 0)), (1 / 60, 0, initialGame (\<lambda>_. 0))]
      (obstacleAt WALL 0 4) = 1
   \<and> exploded ((obstacleAt WALL 0 4)\<lparr>exploded := True\<rparr>)
   \<and> resolutions [(1 / 60, 0, initialGame (\<lambda>_. 0)), (1 / 60, 0, initialGame (\<lambda>_. 0))]
      ((obstacleAt WALL 0 4)\<lparr>exploded := True\<rparr>) = 0"
  using at_most_one_resolution
    [of "[(1 / 60, 0, initialGame (\<lambda>_. 0)), (1 / 60, 0, initialGame (\<lambda>_. 0))]"
        "(obstacleAt WALL 0 4)\<lparr>exploded := True\<rparr>"]
  by (simp add: obstacleAt_def initialGame_def collideObstacle_def moveObstacle_def
      obsWorldZ_def isHit_def playerLane_def jsRound_def jsRem_def applyEffect_def
      checkGameOver_def removeObstacle_def observed_def MAX_HEALTH_def)

text \<open>
  Within one frame the loop visits every obstacle of the array once, and every event it
  fires uses up an obstacle that was not yet \<open>exploded\<close>: events fired plus
  obstacles left unexploded never exceed the obstacles unexploded before.
\<close>

lemma collideObstacle_accounting:
  "length (events (snd (collideObstacle dt jH obs g)))
     + (if exploded (fst (collideObstacle dt jH obs g)) then 0 else 1)
   \<le> length (events g) + (if exploded obs then 0 else 1)"
  by (simp add: collideObstacle_def Let_def applyEffect_def checkGameOver_def)

lemma collideAll_accounting:
  "length (events (snd (collideAll dt jH obs g)))
     + length (filter (\<lambda>ob. \<not> exploded ob) (fst (collideAll dt jH obs g)))
   \<le> length (events g) + length (filter (\<lambda>ob. \<not> exploded ob) obs)"
proof (induction obs arbitrary: g)
  case Nil
  then show ?case by simp
next
  case (Cons ob obs)
  from Cons.IH[of "snd (collideObstacle dt jH ob g)"] collideObstacle_accounting[of dt jH ob g]
  show ?case by (auto simp: split_def Let_def split: if_splits)
qed

text \<open>
  C10. The stored width plays no part in the loop body: with any other width the game
  state, the \<open>exploded\<close> flag, the parent link and the position of the obstacle come out
  the same. And whenever the loop body changes the game state, the lane of the player
  as compared equals the lane of the obstacle: a hit is decided by lane equality, so a
  DOOR is hit in its own lane only.
\<close>

theorem width_never_read:
  "snd (collideObstacle dt jH (obs\<lparr>width := w\<rparr>) g) = snd (collideObstacle dt jH obs g)
   \<and> exploded (fst (collideObstacle dt jH (obs\<lparr>width := w\<rparr>) g)) =
       exploded (fst (collideObstacle dt jH obs g))
   \<and> parent (fst (collideObstacle dt jH (obs\<lparr>width := w\<rparr>) g)) =
       parent (fst (collideObstacle dt jH obs g))
   \<and> meshZ (fst (collideObstacle dt jH (obs\<lparr>width := w\<rparr>) g)) =
       meshZ (fst (collideObstacle dt jH obs g))
   \<and> (snd (collideObstacle dt jH obs g) \<noteq> g \<longrightarrow> playerLane g = lane obs)"
proof -
  have a: "snd (collideObstacle dt jH (obs\<lparr>width := w\<rparr>) g) = snd (collideObstacle dt jH obs g)"
    by (simp add: collideObstacle_def Let_def)
  have b: "exploded (fst (collideObstacle dt jH (obs\<lparr>width := w\<rparr>) g)) =
      exploded (fst (collideObstacle dt jH obs g))"
    by (simp add: collideObstacle_def Let_def)
  have c: "parent (fst (collideObstacle dt jH (obs\<lparr>width := w\<rparr>) g)) =
      parent (fst (collideObstacle dt jH obs g))"
    by (simp add: collideObstacle_def Let_def)
  have d: "meshZ (fst (collideObstacle dt jH (obs\<lparr>width := w\<rparr>) g)) =
      meshZ (fst (collideObstacle dt jH obs g))"
    by (simp add: collideObstacle_def Let_def)
  have e: "snd (collideObstacle dt jH obs g) \<noteq> g \<longrightarrow> playerLane g = lane obs"
    by (auto simp: collideObstacle_def Let_def isHit_def split: if_splits)
  from a b c d e show ?thesis by blast
qed

text \<open>A DOOR in the band: hit from lane 0 when it stands in lane 0, with width 2 as
  with width 1; not hit from lane 0 when it stands in lane 1 or in lane 11.\<close>

theorem width_never_read_witness:
  "healthRef (snd (collideObstacle (1 / 60) 0 (obstacleAt DOOR 0 4) (initialGame (\<lambda>_. 0)))) = 80
   \<and> healthRef (snd (collideObstacle (1 / 60) 0 ((obstacleAt DOOR 0 4)\<lparr>width := 1\<rparr>)
        (initialGame (\<lambda>_. 0)))) = 80
   \<and> snd (collideObstacle (1 / 60) 0 (obstacleAt DOOR 0 4) (initialGame (\<lambda>_. 0)))
        \<noteq> initialGame (\<lambda>_. 0)
   \<and> playerLane (initialGame (\<lambda>_. 0)) = lane (obstacleAt DOOR 0 4)
   \<and> snd (collideObstacle (1 / 60) 0 (obstacleAt DOOR 1 4) (initialGame (\<lambda>_. 0)))
        = initialGame (\<lambda>_. 0)
   \<and> snd (collideObstacle (1 / 60) 0 (obstacleAt DOOR 11 4) (initialGame (\<lambda>_. 0)))
        = initialGame (\<lambda>_. 0)"
proof -
  have h: "healthRef (snd (collideObstacle (1 / 60) 0 (obstacleAt DOOR 0 4)
      (initialGame (\<lambda>_. 0)))) = 80"
    by (simp add: obstacleAt_def initialGame_def collideObstacle_def moveObstacle_def
      obsWorldZ_def isHit_def playerLane_def jsRound_def jsRem_def applyEffect_def
      checkGameOver_def removeObstacle_def MAX_HEALTH_def)
  have "healthRef (initialGame (\<lambda>_. 0)) = 100"
    by (simp add: initialGame_def MAX_HEALTH_def)
  with h have ne: "snd (collideObstacle (1 / 60) 0 (obstacleAt DOOR 0 4) (initialGame (\<lambda>_. 0)))
      \<noteq> initialGame (\<lambda>_. 0)"
    by auto
  have n1: "snd (collideObstacle (1 / 60) 0 (obstacleAt DOOR 1 4) (initialGame (\<lambda>_. 0)))
      = initialGame (\<lambda>_. 0)"
    by (simp add: obstacleAt_def initialGame_def collideObstacle_def moveObstacle_def
      obsWorldZ_def isHit_def playerLane_def jsRound_def jsRem_def)
  have n2: "snd (collideObstacle (1 / 60) 0 (obstacleAt DOOR 11 4) (initialGame (\<lambda>_. 0)))
      = initialGame (\<lambda>_. 0)"
    by (simp add: obstacleAt_def initialGame_def collideObstacle_def moveObstacle_def
      obsWorldZ_def isHit_def playerLane_def jsRound_def jsRem_def)
  from h ne n1 n2
    width_never_read [where dt = "1 / 60" and jH = 0 and obs = "obstacleAt DOOR 0 4"
      and w = 1 and g = "initialGame (\<lambda>_. 0)"]
  show ?thesis by simp
qed
section \<open>What each step leaves alone\<close>

text \<open>Spawning touches the random position, the segment store and the two arrays;
  health, phase and empty mode pass through.\<close>

lemma spawnObstacle_keeps [simp]:
  "healthRef (spawnObstacle par g) = healthRef g"
  "segmentsRef (spawnObstacle par g) = segmentsRef g"
  "emptyModeRef (spawnObstacle par g) = emptyModeRef g"
  "phaseRef (spawnObstacle par g) = phaseRef g"
  "segZ (spawnObstacle par g) = segZ g"
  "nextSeg (spawnObstacle par g) = nextSeg g"
  by (simp_all add: spawnObstacle_def random_def Let_def)

lemma spawnObstacles_keeps [simp]:
  "healthRef (spawnObstacles k par g) = healthRef g"
  "segmentsRef (spawnObstacles k par g) = segmentsRef g"
  "emptyModeRef (spawnObstacles k par g) = emptyModeRef g"
  "phaseRef (spawnObstacles k par g) = phaseRef g"
  "segZ (spawnObstacles k par g) = segZ g"
  "nextSeg (spawnObstacles k par g) = nextSeg g"
  by (induction k arbitrary: g; simp)+

lemma spawnSegment_keeps [simp]:
  "healthRef (spawnSegment z g) = healthRef g"
  "segmentsRef (spawnSegment z g) = segmentsRef g @ [nextSeg g]"
  "emptyModeRef (spawnSegment z g) = emptyModeRef g"
  "phaseRef (spawnSegment z g) = phaseRef g"
  "nextSeg (spawnSegment z g) = nextSeg g + 1"
  "segZ (spawnSegment z g) = (segZ g)(nextSeg g := - z)"
  by (simp_all add: spawnSegment_def random_def Let_def split: prod.split)

lemma foldl_spawn_keeps:
  "healthRef (foldl (\<lambda>g i. spawnSegment (f i) g) g xs) = healthRef g"
  "length (segmentsRef (foldl (\<lambda>g i. spawnSegment (f i) g) g xs)) = length (segmentsRef g) + length xs"
  by (induction xs arbitrary: g; simp)+

lemma resetGame_health: "healthRef (resetGame b g) = (if b then 100 else healthRef g)"
  by (simp add: resetGame_def Let_def foldl_spawn_keeps MAX_HEALTH_def)

lemma resetGame_segments: "length (segmentsRef (resetGame b g)) = 40"
  by (simp add: resetGame_def Let_def foldl_spawn_keeps)

section \<open>Every frame returns\<close>

text \<open>With \<open>max = 12\<close> both loops of \<open>lerpCyclic\<close> end, so \<open>animate\<close> and every
  other action yield a state.\<close>

lemma wrapDown_bounded:
  "0 < mx \<Longrightarrow> d \<le> mx / 2 + real n * mx \<Longrightarrow> \<exists>y. wrapDown d mx = Some y"
proof (induction n arbitrary: d)
  case 0
  then show ?case by (subst wrapDown.simps) simp
next
  case (Suc n)
  show ?case
  proof (cases "d > mx / 2")
    case True
    from Suc.prems have "d - mx \<le> mx / 2 + real n * mx" by (simp add: algebra_simps)
    with Suc.IH[OF Suc.prems(1)] obtain y where "wrapDown (d - mx) mx = Some y" by blast
    with True show ?thesis by (subst wrapDown.simps) simp
  next
    case False
    then show ?thesis by (subst wrapDown.simps) simp
  qed
qed

lemma wrapDown_total: assumes "0 < mx" shows "\<exists>y. wrapDown d mx = Some y"
proof -
  obtain n :: nat where "(d - mx / 2) / mx \<le> real n" using real_arch_simple by blast
  with assms have "d \<le> mx / 2 + real n * mx" by (simp add: field_simps)
  with assms show ?thesis by (rule wrapDown_bounded)
qed

lemma wrapUp_bounded:
  "0 < mx \<Longrightarrow> - mx / 2 - real n * mx \<le> d \<Longrightarrow> \<exists>y. wrapUp d mx = Some y"
proof (induction n arbitrary: d)
  case 0
  then show ?case by (subst wrapUp.simps) simp
next
  case (Suc n)
  show ?case
  proof (cases "d < - mx / 2")
    case True
    from Suc.prems have "- mx / 2 - real n * mx \<le> d + mx" by (simp add: algebra_simps)
    with Suc.IH[OF Suc.prems(1)] obtain y where "wrapUp (d + mx) mx = Some y" by blast
    with True show ?thesis by (subst wrapUp.simps) simp
  next
    case False
    then show ?thesis by (subst wrapUp.simps) simp
  qed
qed

lemma wrapUp_total: assumes "0 < mx" shows "\<exists>y. wrapUp d mx = Some y"
proof -
  obtain n :: nat where "(- mx / 2 - d) / mx \<le> real n" using real_arch_simple by blast
  with assms have "- mx / 2 - real n * mx \<le> d" by (simp add: field_simps)
  with assms show ?thesis by (rule wrapUp_bounded)
qed

lemma lerpCyclic_total: assumes "0 < mx" shows "\<exists>y. lerpCyclic c t s mx = Some y"
proof -
  from assms obtain d1 where 1: "wrapDown (t - c) mx = Some d1" using wrapDown_total by blast
  from assms obtain d2 where 2: "wrapUp d1 mx = Some d2" using wrapUp_total by blast
  from 1 2 show ?thesis by (simp add: lerpCyclic_def)
qed

lemma easeLane_Some: "\<exists>cl. easeLane dt g = Some (g\<lparr>currentLane := cl\<rparr>)"
proof (cases "phaseRef g = FLAT")
  case True
  then show ?thesis by (auto simp: easeLane_def Let_def)
next
  case False
  obtain y where "lerpCyclic (currentLane g) (real_of_int (targetLane g)) (12 * dt) 12 = Some y"
    using lerpCyclic_total[of 12 "currentLane g" "real_of_int (targetLane g)" "12 * dt"] by auto
  with False show ?thesis by (auto simp: easeLane_def Let_def)
qed


lemma moveSegments_keeps [simp]:
  "healthRef (moveSegments d g) = healthRef g"
  "segmentsRef (moveSegments d g) = segmentsRef g"
  "nextSeg (moveSegments d g) = nextSeg g"
  by (simp_all add: moveSegments_def)

lemma recycleSegments_health [simp]: "healthRef (recycleSegments g) = healthRef g"
  by (simp add: recycleSegments_def Let_def split: list.split)

lemma recycleSegments_length:
  "2 \<le> length (segmentsRef g) \<Longrightarrow> length (segmentsRef (recycleSegments g)) = length (segmentsRef g)"
  by (cases "segmentsRef g") (auto simp: recycleSegments_def Let_def)

lemma trackStep_health [simp]: "healthRef (trackStep delta dt g) = healthRef g"
  by (simp add: trackStep_def Let_def)

lemma trackStep_length:
  "2 \<le> length (segmentsRef g) \<Longrightarrow> length (segmentsRef (trackStep delta dt g)) = length (segmentsRef g)"
  by (simp add: trackStep_def Let_def recycleSegments_length)

lemma jumpPhysics_keeps [simp]:
  "healthRef (jumpPhysics dt g) = healthRef g"
  "segmentsRef (jumpPhysics dt g) = segmentsRef g"
  by (simp_all add: jumpPhysics_def Let_def)

lemma applyEffect_healthy: "healthy g \<Longrightarrow> healthy (applyEffect ty g)"
  by (auto simp: healthy_def applyEffect_def MAX_HEALTH_def min_def)

lemma checkGameOver_keeps [simp]:
  "healthRef (checkGameOver g) = healthRef g"
  "segmentsRef (checkGameOver g) = segmentsRef g"
  by (simp_all add: checkGameOver_def)

lemma applyEffect_segments [simp]: "segmentsRef (applyEffect ty g) = segmentsRef g"
  by (simp add: applyEffect_def)

lemma collideObstacle_healthy:
  "healthy g \<Longrightarrow> healthy (snd (collideObstacle dt jH obs g))"
  using applyEffect_healthy[of g "otype obs"]
  by (simp add: collideObstacle_def Let_def healthy_def)

lemma collideObstacle_segments [simp]:
  "segmentsRef (snd (collideObstacle dt jH obs g)) = segmentsRef g"
  by (simp add: collideObstacle_def Let_def)

lemma collideAll_healthy:
  "healthy g \<Longrightarrow> healthy (snd (collideAll dt jH obs g))"
proof (induction obs arbitrary: g)
  case Nil
  then show ?case by simp
next
  case (Cons ob obs)
  from Cons.IH[OF collideObstacle_healthy[OF Cons.prems, of dt jH ob]]
  show ?case by (simp add: split_def Let_def)
qed

lemma collideAll_segments [simp]:
  "segmentsRef (snd (collideAll dt jH obs g)) = segmentsRef g"
  by (induction obs arbitrary: g) (simp_all add: split_def Let_def)

lemma collisionStep_keeps:
  "healthy g \<Longrightarrow> healthy (collisionStep dt g)"
  "segmentsRef (collisionStep dt g) = segmentsRef g"
  using collideAll_healthy[of g dt "jumpHeight g" "obstaclesRef g"]
  by (simp_all add: collisionStep_def Let_def split_def healthy_def)

lemma playingStep_total: "\<exists>g'. playingStep delta dt g = Some g'"
  using easeLane_Some[of dt "trackStep delta dt g"] by (auto simp: playingStep_def Let_def)

lemma playingStep_healthy:
  assumes "healthy g" "playingStep delta dt g = Some g'" shows "healthy g'"
proof -
  obtain cl where e: "easeLane dt (trackStep delta dt g) = Some ((trackStep delta dt g)\<lparr>currentLane := cl\<rparr>)"
    using easeLane_Some by blast
  from assms(1) have "healthy (jumpPhysics dt ((trackStep delta dt g)\<lparr>currentLane := cl\<rparr>))"
    by (simp add: healthy_def)
  then have "healthy (collisionStep dt (jumpPhysics dt ((trackStep delta dt g)\<lparr>currentLane := cl\<rparr>)))"
    by (rule collisionStep_keeps)
  with e assms(2) show ?thesis by (simp add: playingStep_def Let_def)
qed

lemma playingStep_length:
  assumes "2 \<le> length (segmentsRef g)" "playingStep delta dt g = Some g'"
  shows "length (segmentsRef g') = length (segmentsRef g)"
proof -
  obtain cl where e: "easeLane dt (trackStep delta dt g) = Some ((trackStep delta dt g)\<lparr>currentLane := cl\<rparr>)"
    using easeLane_Some by blast
  with assms(2) have "segmentsRef g' = segmentsRef (trackStep delta dt g)"
    by (auto simp: playingStep_def Let_def collisionStep_keeps)
  with assms(1) show ?thesis by (simp add: trackStep_length)
qed

lemma clockStep_keeps [simp]:
  "healthRef (snd (snd (clockStep time g))) = healthRef g"
  "segmentsRef (snd (snd (clockStep time g))) = segmentsRef g"
  "gameStateRef (snd (snd (clockStep time g))) = gameStateRef g"
  by (simp_all add: clockStep_def Let_def)

lemma animate_total: "\<exists>g'. animate time g = Some g'"
  by (simp add: animate_def Let_def split_def playingStep_total)

lemma animate_healthy:
  assumes "healthy g" "animate time g = Some g'" shows "healthy g'"
proof (cases "gameStateRef g = PLAYING")
  case True
  have h: "healthy (snd (snd (clockStep time g)))" using assms(1) by (simp add: healthy_def)
  from True assms(2)
  have "playingStep (fst (clockStep time g)) (fst (snd (clockStep time g))) (snd (snd (clockStep time g))) = Some g'"
    by (simp add: animate_def split_def Let_def)
  with h show ?thesis by (rule playingStep_healthy)
next
  case False
  with assms show ?thesis by (auto simp: animate_def split_def Let_def healthy_def split: if_splits)
qed

lemma animate_length:
  assumes "2 \<le> length (segmentsRef g)" "animate time g = Some g'"
  shows "length (segmentsRef g') = length (segmentsRef g)"
proof (cases "gameStateRef g = PLAYING")
  case True
  have h: "2 \<le> length (segmentsRef (snd (snd (clockStep time g))))" using assms(1) by simp
  from True assms(2)
  have "playingStep (fst (clockStep time g)) (fst (snd (clockStep time g))) (snd (snd (clockStep time g))) = Some g'"
    by (simp add: animate_def split_def Let_def)
  from playingStep_length[OF h this] show ?thesis by simp
next
  case False
  with assms show ?thesis by (auto simp: animate_def split_def Let_def split: if_splits)
qed

lemma changeLane_keeps [simp]:
  "healthRef (changeLane d g) = healthRef g"
  "segmentsRef (changeLane d g) = segmentsRef g"
  by (simp_all add: changeLane_def Let_def)

lemma doJump_keeps [simp]:
  "healthRef (doJump g) = healthRef g"
  "segmentsRef (doJump g) = segmentsRef g"
  by (simp_all add: doJump_def)

lemma nextLevel_keeps:
  "healthRef (nextLevel g) = healthRef g"
  "length (segmentsRef (nextLevel g)) = 40"
  by (simp_all add: nextLevel_def Let_def resetGame_health resetGame_segments)

lemma sync_keeps:
  "healthRef (syncEmptyMode b g) = healthRef g"
  "segmentsRef (syncEmptyMode b g) = segmentsRef g"
  "healthRef (syncGameState st g) = healthRef g"
  "segmentsRef (syncGameState st g) = segmentsRef g"
  "healthRef (syncDebugPhase ph g) = healthRef g"
  "length (segmentsRef g) = 40 \<Longrightarrow> length (segmentsRef (syncDebugPhase ph g)) = 40"
  "healthRef (syncRenderStyle g) = healthRef g"
  "length (segmentsRef (syncRenderStyle g)) = 40"
  by (simp_all add: syncEmptyMode_def syncGameState_def syncDebugPhase_def syncRenderStyle_def
      Let_def resetGame_health resetGame_segments)

lemma perform_total: "\<exists>g'. perform a g = Some g'"
  by (cases a) (simp_all add: animate_total)

lemma run_total: "\<exists>g'. run acts g = Some g'"
proof (induction acts arbitrary: g)
  case Nil
  then show ?case by simp
next
  case (Cons a acts)
  obtain g1 where "perform a g = Some g1" using perform_total by blast
  with Cons.IH[of g1] show ?case by simp
qed

lemma run_invariant:
  assumes step: "\<And>a g g'. P g \<Longrightarrow> perform a g = Some g' \<Longrightarrow> P g'"
  shows "P g \<Longrightarrow> run acts g = Some g' \<Longrightarrow> P g'"
proof (induction acts arbitrary: g)
  case Nil
  then show ?case by simp
next
  case (Cons a acts)
  then show ?case by (auto split: option.splits dest: step)
qed

lemma perform_healthy: "healthy g \<Longrightarrow> perform a g = Some g' \<Longrightarrow> healthy g'"
proof (cases a)
  case (Frame t)
  then show "healthy g \<Longrightarrow> perform a g = Some g' \<Longrightarrow> healthy g'"
    using animate_healthy by simp
qed (auto simp: healthy_def resetGame_health nextLevel_keeps sync_keeps)

lemma perform_length:
  "length (segmentsRef g) = 40 \<Longrightarrow> perform a g = Some g' \<Longrightarrow> length (segmentsRef g') = 40"
  by (cases a) (auto simp: resetGame_segments nextLevel_keeps sync_keeps dest: animate_length[rotated])


lemma run_healthy: "healthy g \<Longrightarrow> run acts g = Some g' \<Longrightarrow> healthy g'"
  by (rule run_invariant[where P = healthy]) (rule perform_healthy)

lemma run_length:
  "length (segmentsRef g) = 40 \<Longrightarrow> run acts g = Some g' \<Longrightarrow> length (segmentsRef g') = 40"
  by (rule run_invariant[where P = "\<lambda>g. length (segmentsRef g) = 40"]) (rule perform_length)

section \<open>No spawned obstacle is vertical\<close>

lemma flatParams_upd [simp]:
  "flatParams (g\<lparr>scoreRef := a1\<rparr>) = flatParams g"
  "flatParams (g\<lparr>timeRef := a2\<rparr>) = flatParams g"
  "flatParams (g\<lparr>phaseRef := a3\<rparr>) = flatParams g"
  "flatParams (g\<lparr>levelRef := a4\<rparr>) = flatParams g"
  "flatParams (g\<lparr>healthRef := a5\<rparr>) = flatParams g"
  "flatParams (g\<lparr>gameStateRef := a6\<rparr>) = flatParams g"
  "flatParams (g\<lparr>currentLane := a7\<rparr>) = flatParams g"
  "flatParams (g\<lparr>targetLane := a8\<rparr>) = flatParams g"
  "flatParams (g\<lparr>playerVelY := a9\<rparr>) = flatParams g"
  "flatParams (g\<lparr>isJumping := b1\<rparr>) = flatParams g"
  "flatParams (g\<lparr>jumpHeight := b2\<rparr>) = flatParams g"
  "flatParams (g\<lparr>speedMultRef := b3\<rparr>) = flatParams g"
  "flatParams (g\<lparr>speedTimerRef := b4\<rparr>) = flatParams g"
  "flatParams (g\<lparr>gameTimeRef := b5\<rparr>) = flatParams g"
  "flatParams (g\<lparr>lastTimeRef := b6\<rparr>) = flatParams g"
  "flatParams (g\<lparr>emptyModeRef := b7\<rparr>) = flatParams g"
  "flatParams (g\<lparr>segmentsRef := b8\<rparr>) = flatParams g"
  "flatParams (g\<lparr>segZ := b9\<rparr>) = flatParams g"
  "flatParams (g\<lparr>nextSeg := c1\<rparr>) = flatParams g"
  "flatParams (g\<lparr>rngPos := c2\<rparr>) = flatParams g"
  "flatParams (g\<lparr>events := c3\<rparr>) = flatParams g"
  "flatParams (g\<lparr>stateRequests := c4\<rparr>) = flatParams g"
  "flatParams (g\<lparr>obstaclesRef := []\<rparr>)"
  by (simp_all add: flatParams_def)

lemma spawnObstacle_flat: "flatParams g \<Longrightarrow> flatParams (spawnObstacle par g)"
  by (simp add: flatParams_def spawnObstacle_def random_def Let_def)

lemma spawnObstacles_flat: "flatParams g \<Longrightarrow> flatParams (spawnObstacles k par g)"
  by (induction k arbitrary: g) (simp_all add: spawnObstacle_flat)

lemma spawnSegment_flat: "flatParams g \<Longrightarrow> flatParams (spawnSegment z g)"
  by (simp add: spawnSegment_def Let_def random_def spawnObstacles_flat split: prod.split
      del: spawnObstacles.simps)

lemma foldl_spawn_flat:
  "flatParams g \<Longrightarrow> flatParams (foldl (\<lambda>g i. spawnSegment (f i) g) g xs)"
  by (induction xs arbitrary: g) (simp_all add: spawnSegment_flat)

lemma resetGame_flat: "flatParams (resetGame b g)"
  unfolding resetGame_def Let_def by (rule foldl_spawn_flat) simp

lemma recycleSegments_flat: "flatParams g \<Longrightarrow> flatParams (recycleSegments g)"
  by (simp add: recycleSegments_def Let_def spawnSegment_flat split: list.split)

lemma trackStep_flat: "flatParams g \<Longrightarrow> flatParams (trackStep delta dt g)"
  by (simp add: trackStep_def Let_def moveSegments_def recycleSegments_flat)

lemma jumpPhysics_flat: "flatParams g \<Longrightarrow> flatParams (jumpPhysics dt g)"
  by (simp add: jumpPhysics_def Let_def)

lemma collideObstacle_vertical [simp]:
  "vertical (fst (collideObstacle dt jH obs g)) = vertical obs"
  by (simp add: collideObstacle_def Let_def removeObstacle_def)

lemma collideAll_vertical:
  "list_all (\<lambda>ob. \<not> vertical ob) obs \<Longrightarrow>
   list_all (\<lambda>ob. \<not> vertical ob) (fst (collideAll dt jH obs g))"
  by (induction obs arbitrary: g) (simp_all add: split_def Let_def)

lemma collisionStep_flat: "flatParams g \<Longrightarrow> flatParams (collisionStep dt g)"
  by (simp add: collisionStep_def Let_def split_def flatParams_def collideAll_vertical)

lemma playingStep_flat:
  assumes "flatParams g" "playingStep delta dt g = Some g'" shows "flatParams g'"
proof -
  obtain cl where e: "easeLane dt (trackStep delta dt g) = Some ((trackStep delta dt g)\<lparr>currentLane := cl\<rparr>)"
    using easeLane_Some by blast
  from assms(1) have "flatParams (jumpPhysics dt ((trackStep delta dt g)\<lparr>currentLane := cl\<rparr>))"
    by (simp add: jumpPhysics_flat trackStep_flat)
  then have "flatParams (collisionStep dt (jumpPhysics dt ((trackStep delta dt g)\<lparr>currentLane := cl\<rparr>)))"
    by (rule collisionStep_flat)
  with e assms(2) show ?thesis by (simp add: playingStep_def)
qed

lemma clockStep_flat [simp]: "flatParams (snd (snd (clockStep time g))) = flatParams g"
  by (simp add: clockStep_def Let_def)

lemma animate_flat:
  assumes "flatParams g" "animate time g = Some g'" shows "flatParams g'"
proof (cases "gameStateRef g = PLAYING")
  case True
  have h: "flatParams (snd (snd (clockStep time g)))" using assms(1) by simp
  from True assms(2)
  have "playingStep (fst (clockStep time g)) (fst (snd (clockStep time g))) (snd (snd (clockStep time g))) = Some g'"
    by (simp add: animate_def split_def Let_def)
  with h show ?thesis by (rule playingStep_flat)
next
  case False
  with assms show ?thesis by (auto simp: animate_def split_def Let_def split: if_splits)
qed

lemma perform_flat: "flatParams g \<Longrightarrow> perform a g = Some g' \<Longrightarrow> flatParams g'"
proof (cases a)
  case (Frame t)
  then show "flatParams g \<Longrightarrow> perform a g = Some g' \<Longrightarrow> flatParams g'"
    using animate_flat by simp
qed (auto simp: changeLane_def doJump_def Let_def resetGame_flat nextLevel_def syncGameState_def
      syncDebugPhase_def syncEmptyMode_def syncRenderStyle_def)

lemma run_flat: "flatParams g \<Longrightarrow> run acts g = Some g' \<Longrightarrow> flatParams g'"
  by (rule run_invariant[where P = flatParams]) (rule perform_flat)

lemma jump_clears:
  "\<not> vertical obs \<Longrightarrow> 3 / 2 < jH \<Longrightarrow> snd (collideObstacle dt jH obs g) = g"
  by (simp add: collideObstacle_def Let_def isHit_def)

text \<open>In every state reached from a reset, a jump above 1.5 keeps every obstacle of the
  array from resolving, whatever its type.\<close>

lemma reachable_jump_clears:
  assumes "run acts (resetGame b g0) = Some g" "obs \<in> set (obstaclesRef g)" "3 / 2 < jH"
  shows "snd (collideObstacle dt jH obs g') = g'"
proof -
  from assms(1) have "flatParams g" using run_flat[OF resetGame_flat] by blast
  with assms(2) have "\<not> vertical obs" by (simp add: flatParams_def list_all_iff)
  with assms(3) show ?thesis by (simp add: jump_clears)
qed

section \<open>Evaluating a run\<close>

text \<open>Rules for running the model on concrete input: \<open>resetGame\<close> with its loop
  applied to the reset state, the spawn loop at 1 and 2, and every definition.\<close>

lemma resetGame_unfold:
  "resetGame fullReset g =
     foldl (\<lambda>g i. spawnSegment (real_of_int i * SEGMENT_LENGTH) g)
       ((if fullReset
         then g\<lparr>scoreRef := 0, levelRef := 1, healthRef := MAX_HEALTH, phaseRef := ROUND\<rparr>
         else g)\<lparr>timeRef := PHASE_DURATION, targetLane := 0, currentLane := 0,
                 playerVelY := 0, isJumping := False, speedMultRef := 1, gameTimeRef := 0,
                 segmentsRef := [], obstaclesRef := [], jumpHeight := 0\<rparr>)
       [- 10 .. 29]"
  by (simp add: resetGame_def Let_def)

lemma spawnObstacles_num:
  "spawnObstacles 1 par g = spawnObstacle par g"
  "spawnObstacles 2 par g = spawnObstacle par (spawnObstacle par g)"
  by (simp_all add: numeral_2_eq_2)

lemmas eval_defs = initialGame_def resetGame_unfold spawnSegment_def spawnObstacle_def random_def
  pickType_def pickLane_def tileRowOf_def zPosOf_def syncGameState_def syncDebugPhase_def
  animate_def clockStep_def playingStep_def trackStep_def moveSegments_def recycleSegments_def
  easeLane_def lerpCyclic_def lerp_def jumpPhysics_def collisionStep_def collideObstacle_def
  moveObstacle_def obsWorldZ_def isHit_def playerLane_def jsRound_def jsRem_def removeObstacle_def
  applyEffect_def checkGameOver_def changeLane_def observed_def laneView_def
  SPEED_BASE_def LANE_WIDTH_def SEGMENT_LENGTH_def MAX_HEALTH_def PHASE_DURATION_def
  LANE_COUNT_FLAT_def LANE_COUNT_ROUND_def Let_def spawnObstacles_num upto_rec1
  wrapDown.simps wrapUp.simps

section \<open>Spawning\<close>

lemma pickType_table:
  "(pickType r = HEART) = (95 / 100 < r)"
  "(pickType r = SPEED_BOOST) = (90 / 100 < r \<and> r \<le> 95 / 100)"
  "(pickType r = CLOCK_BLUE) = (85 / 100 < r \<and> r \<le> 90 / 100)"
  "(pickType r = BULLET) = (75 / 100 < r \<and> r \<le> 85 / 100)"
  "(pickType r = EXTRUDING) = (65 / 100 < r \<and> r \<le> 75 / 100)"
  "(pickType r = WALL) = (55 / 100 < r \<and> r \<le> 65 / 100)"
  "(pickType r = DOOR) = (40 / 100 < r \<and> r \<le> 55 / 100)"
  "(pickType r = BALL) = (25 / 100 < r \<and> r \<le> 40 / 100)"
  "(pickType r = SIMPLE) = (r \<le> 25 / 100)"
  "pickType r \<noteq> INSTA_DEATH"
  by (auto simp: pickType_def)

lemma spawnObstacle_pushes:
  "\<not> emptyModeRef g \<Longrightarrow>
   obstaclesRef (spawnObstacle par g) = obstaclesRef g @
     [\<lparr>parent = Some par,
       meshZ = zPosOf (tileRowOf (rng g (rngPos g +
                 (if pickType (rng g (rngPos g + 1)) = EXTRUDING then 3 else 2)))),
       otype = pickType (rng g (rngPos g + 1)),
       lane = pickLane (phaseRef g) (rng g (rngPos g)),
       width = (if pickType (rng g (rngPos g + 1)) = DOOR then 2 else 1),
       exploded = False, speed = SPEED_BASE * 2, vertical = False\<rparr>]"
  by (simp add: spawnObstacle_def random_def Let_def numeral_3_eq_3 numeral_2_eq_2)

lemma spawn_first_type:
  "otype (last (obstaclesRef (spawnObstacle par (initialGame (\<lambda>_. r))))) = pickType r"
  by (simp add: spawnObstacle_pushes initialGame_def)

text \<open>
  C5. Each of the nine types of the table is selected by \<open>spawnObstacle\<close> for some
  draw in \<open>[0, 1)\<close>, and the table is: HEART above 0.95, SPEED_BOOST above 0.90,
  CLOCK_BLUE above 0.85, BULLET above 0.75, EXTRUDING above 0.65, WALL above 0.55, DOOR
  above 0.40, BALL above 0.25, SIMPLE for the rest; that is 5, 5, 5, 10, 10, 10, 15, 15
  and 25 hundredths of the unit interval, in this order from the top.
\<close>

theorem every_table_type_reachable:
  "(\<exists>r. 0 \<le> r \<and> r < 1 \<and> otype (last (obstaclesRef (spawnObstacle par (initialGame (\<lambda>_. r))))) = HEART)
 \<and> (\<exists>r. 0 \<le> r \<and> r < 1 \<and> otype (last (obstaclesRef (spawnObstacle par (initialGame (\<lambda>_. r))))) = SPEED_BOOST)
 \<and> (\<exists>r. 0 \<le> r \<and> r < 1 \<and> otype (last (obstaclesRef (spawnObstacle par (initialGame (\<lambda>_. r))))) = CLOCK_BLUE)
 \<and> (\<exists>r. 0 \<le> r \<and> r < 1 \<and> otype (last (obstaclesRef (spawnObstacle par (initialGame (\<lambda>_. r))))) = BULLET)
 \<and> (\<exists>r. 0 \<le> r \<and> r < 1 \<and> otype (last (obstaclesRef (spawnObstacle par (initialGame (\<lambda>_. r))))) = EXTRUDING)
 \<and> (\<exists>r. 0 \<le> r \<and> r < 1 \<and> otype (last (obstaclesRef (spawnObstacle par (initialGame (\<lambda>_. r))))) = WALL)
 \<and> (\<exists>r. 0 \<le> r \<and> r < 1 \<and> otype (last (obstaclesRef (spawnObstacle par (initialGame (\<lambda>_. r))))) = DOOR)
 \<and> (\<exists>r. 0 \<le> r \<and> r < 1 \<and> otype (last (obstaclesRef (spawnObstacle par (initialGame (\<lambda>_. r))))) = BALL)
 \<and> (\<exists>r. 0 \<le> r \<and> r < 1 \<and> otype (last (obstaclesRef (spawnObstacle par (initialGame (\<lambda>_. r))))) = SIMPLE)
 \<and> (pickType r = HEART) = (95 / 100 < r)
 \<and> (pickType r = SPEED_BOOST) = (90 / 100 < r \<and> r \<le> 95 / 100)
 \<and> (pickType r = CLOCK_BLUE) = (85 / 100 < r \<and> r \<le> 90 / 100)
 \<and> (pickType r = BULLET) = (75 / 100 < r \<and> r \<le> 85 / 100)
 \<and> (pickType r = EXTRUDING) = (65 / 100 < r \<and> r \<le> 75 / 100)
 \<and> (pickType r = WALL) = (55 / 100 < r \<and> r \<le> 65 / 100)
 \<and> (pickType r = DOOR) = (40 / 100 < r \<and> r \<le> 55 / 100)
 \<and> (pickType r = BALL) = (25 / 100 < r \<and> r \<le> 40 / 100)
 \<and> (pickType r = SIMPLE) = (r \<le> 25 / 100)"
proof -
  have "0 \<le> (96 / 100 :: real) \<and> (96 / 100 :: real) < 1 \<and> pickType (96 / 100) = HEART"
       "0 \<le> (92 / 100 :: real) \<and> (92 / 100 :: real) < 1 \<and> pickType (92 / 100) = SPEED_BOOST"
       "0 \<le> (87 / 100 :: real) \<and> (87 / 100 :: real) < 1 \<and> pickType (87 / 100) = CLOCK_BLUE"
       "0 \<le> (80 / 100 :: real) \<and> (80 / 100 :: real) < 1 \<and> pickType (80 / 100) = BULLET"
       "0 \<le> (70 / 100 :: real) \<and> (70 / 100 :: real) < 1 \<and> pickType (70 / 100) = EXTRUDING"
       "0 \<le> (60 / 100 :: real) \<and> (60 / 100 :: real) < 1 \<and> pickType (60 / 100) = WALL"
       "0 \<le> (50 / 100 :: real) \<and> (50 / 100 :: real) < 1 \<and> pickType (50 / 100) = DOOR"
       "0 \<le> (30 / 100 :: real) \<and> (30 / 100 :: real) < 1 \<and> pickType (30 / 100) = BALL"
       "0 \<le> (10 / 100 :: real) \<and> (10 / 100 :: real) < 1 \<and> pickType (10 / 100) = SIMPLE"
    by (simp_all add: pickType_def)
  then show ?thesis
    unfolding spawn_first_type pickType_table by blast
qed

lemma pickLane_range:
  assumes "0 \<le> r" "r < 1"
  shows "(ph = FLAT \<longrightarrow> - 3 \<le> pickLane ph r \<and> pickLane ph r \<le> 3)
       \<and> (ph \<noteq> FLAT \<longrightarrow> 0 \<le> pickLane ph r \<and> pickLane ph r \<le> 11)"
proof -
  from assms have "0 \<le> \<lfloor>r * 7\<rfloor>" "\<lfloor>r * 7\<rfloor> < 7" "0 \<le> \<lfloor>r * 12\<rfloor>" "\<lfloor>r * 12\<rfloor> < 12"
    by (simp_all add: floor_less_iff)
  then show ?thesis by (simp add: pickLane_def LANE_COUNT_FLAT_def LANE_COUNT_ROUND_def)
qed

lemma pickLane_uniform:
  "(pickLane FLAT r = k) = (real_of_int (k + 3) / 7 \<le> r \<and> r < real_of_int (k + 4) / 7)"
  "ph \<noteq> FLAT \<Longrightarrow> (pickLane ph r = k) = (real_of_int k / 12 \<le> r \<and> r < real_of_int (k + 1) / 12)"
  by (auto simp: pickLane_def LANE_COUNT_FLAT_def LANE_COUNT_ROUND_def floor_eq_iff field_simps)

lemma zPos_slot:
  "(zPosOf (tileRowOf r) = 3 / 2 + 3 * real_of_int j) = (real_of_int j / 4 \<le> r \<and> r < real_of_int (j + 1) / 4)"
  by (auto simp: zPosOf_def tileRowOf_def LANE_WIDTH_def floor_eq_iff field_simps)

lemma zPos_slots:
  assumes "0 \<le> r" "r < 1"
  shows "zPosOf (tileRowOf r) \<in> {3 / 2, 9 / 2, 15 / 2, 21 / 2}"
proof -
  from assms have "0 \<le> \<lfloor>r * 4\<rfloor>" "\<lfloor>r * 4\<rfloor> < 4" by (simp_all add: floor_less_iff)
  then have "\<lfloor>r * 4\<rfloor> = 0 \<or> \<lfloor>r * 4\<rfloor> = 1 \<or> \<lfloor>r * 4\<rfloor> = 2 \<or> \<lfloor>r * 4\<rfloor> = 3" by linarith
  then show ?thesis by (auto simp: zPosOf_def tileRowOf_def LANE_WIDTH_def)
qed

text \<open>
  C9, as the code has it. Outside empty mode \<open>spawnObstacle\<close> pushes one obstacle under
  the given segment. Its lane is \<open>pickLane\<close> of the first draw: a lane of \<open>-3..3\<close> on
  the FLAT track and of \<open>0..11\<close> otherwise, each lane for a draw in an interval of the
  same length. Its local \<open>z\<close> is one of 1.5, 4.5, 7.5 and 10.5, each for a draw in a
  quarter of the unit interval. Both depend on the draws alone, not on the obstacles
  already there.
\<close>

theorem spawnObstacle_placement:
  "(\<not> emptyModeRef g \<and> (\<forall>n. 0 \<le> rng g n \<and> rng g n < 1) \<longrightarrow>
      (\<exists>ob. obstaclesRef (spawnObstacle par g) = obstaclesRef g @ [ob]
         \<and> parent ob = Some par
         \<and> lane ob = pickLane (phaseRef g) (rng g (rngPos g))
         \<and> (phaseRef g = FLAT \<longrightarrow> - 3 \<le> lane ob \<and> lane ob \<le> 3)
         \<and> (phaseRef g \<noteq> FLAT \<longrightarrow> 0 \<le> lane ob \<and> lane ob \<le> 11)
         \<and> meshZ ob = zPosOf (tileRowOf (rng g (rngPos g +
                   (if pickType (rng g (rngPos g + 1)) = EXTRUDING then 3 else 2))))
         \<and> meshZ ob \<in> {3 / 2, 9 / 2, 15 / 2, 21 / 2}))
   \<and> (pickLane FLAT r = k) = (real_of_int (k + 3) / 7 \<le> r \<and> r < real_of_int (k + 4) / 7)
   \<and> (ph \<noteq> FLAT \<longrightarrow>
        (pickLane ph r = k) = (real_of_int k / 12 \<le> r \<and> r < real_of_int (k + 1) / 12))
   \<and> (zPosOf (tileRowOf r) = 3 / 2 + 3 * real_of_int j) =
        (real_of_int j / 4 \<le> r \<and> r < real_of_int (j + 1) / 4)"
proof -
  have "\<not> emptyModeRef g \<and> (\<forall>n. 0 \<le> rng g n \<and> rng g n < 1) \<longrightarrow>
      (\<exists>ob. obstaclesRef (spawnObstacle par g) = obstaclesRef g @ [ob]
         \<and> parent ob = Some par
         \<and> lane ob = pickLane (phaseRef g) (rng g (rngPos g))
         \<and> (phaseRef g = FLAT \<longrightarrow> - 3 \<le> lane ob \<and> lane ob \<le> 3)
         \<and> (phaseRef g \<noteq> FLAT \<longrightarrow> 0 \<le> lane ob \<and> lane ob \<le> 11)
         \<and> meshZ ob = zPosOf (tileRowOf (rng g (rngPos g +
                   (if pickType (rng g (rngPos g + 1)) = EXTRUDING then 3 else 2))))
         \<and> meshZ ob \<in> {3 / 2, 9 / 2, 15 / 2, 21 / 2})"
    using pickLane_range[of "rng g (rngPos g)" "phaseRef g"]
      zPos_slots[of "rng g (rngPos g +
        (if pickType (rng g (rngPos g + 1)) = EXTRUDING then 3 else 2))"]
    by (simp add: spawnObstacle_pushes)
  then show ?thesis
    using pickLane_uniform(1)[of r k] pickLane_uniform(2)[of ph r k] zPos_slot[of r j]
    by blast
qed

text \<open>With every draw at 0.5 on the tube: a DOOR in lane 6 at \<open>z = 7.5\<close>.\<close>

theorem spawnObstacle_placement_witness:
  "\<not> emptyModeRef (initialGame (\<lambda>_. 1 / 2))
   \<and> (\<forall>n. 0 \<le> rng (initialGame (\<lambda>_. 1 / 2)) n \<and> rng (initialGame (\<lambda>_. 1 / 2)) n < 1)
   \<and> phaseRef (initialGame (\<lambda>_. 1 / 2)) \<noteq> FLAT
   \<and> obstaclesRef (spawnObstacle 0 (initialGame (\<lambda>_. 1 / 2))) = [obstacleAt DOOR 6 (15 / 2)]
   \<and> (\<exists>ob. obstaclesRef (spawnObstacle 0 (initialGame (\<lambda>_. 1 / 2))) =
              obstaclesRef (initialGame (\<lambda>_. 1 / 2)) @ [ob]
         \<and> 0 \<le> lane ob \<and> lane ob \<le> 11 \<and> meshZ ob \<in> {3 / 2, 9 / 2, 15 / 2, 21 / 2})"
  using spawnObstacle_placement [of "initialGame (\<lambda>_. 1 / 2)" 0]
  by (simp add: spawnObstacle_pushes initialGame_def obstacleAt_def pickType_def pickLane_def
      zPosOf_def tileRowOf_def LANE_COUNT_ROUND_def LANE_WIDTH_def SPEED_BASE_def)

text \<open>
  C9 as stated fails. With every draw at 0.5 a segment gets two obstacles, both in lane
  6 at \<open>z = 7.5\<close>: they overlap. And a tile-row draw of 0.9 puts an obstacle at
  \<open>z = 10.5\<close>, beyond the segment, whose length is 8.
\<close>

theorem spawn_overlap_counterexample:
  "map (\<lambda>ob. (parent ob, lane ob, meshZ ob))
      (obstaclesRef (spawnSegment 0 (initialGame (\<lambda>_. 1 / 2))))
      = [(Some 0, 6, 15 / 2), (Some 0, 6, 15 / 2)]
   \<and> zPosOf (tileRowOf (9 / 10)) = 21 / 2 \<and> SEGMENT_LENGTH < 21 / 2"
  by (simp add: spawnSegment_def spawnObstacle_def initialGame_def random_def pickType_def
      Let_def pickLane_def tileRowOf_def zPosOf_def LANE_WIDTH_def LANE_COUNT_ROUND_def
      numeral_2_eq_2 SEGMENT_LENGTH_def)

section \<open>The segment window\<close>

lemma recycle_shape:
  "2 \<le> length (segmentsRef g) \<Longrightarrow>
   segmentsRef (recycleSegments g) =
     (if segZ g (hd (segmentsRef g)) > 100 then tl (segmentsRef g) @ [nextSeg g] else segmentsRef g)"
  by (cases "segmentsRef g") (auto simp: recycleSegments_def Let_def)

lemma recycle_position:
  "2 \<le> length (segmentsRef g) \<Longrightarrow> segZ g (hd (segmentsRef g)) > 100 \<Longrightarrow>
   segZ (recycleSegments g) (nextSeg g) = segZ g (last (segmentsRef g)) - SEGMENT_LENGTH"
  by (cases "segmentsRef g") (auto simp: recycleSegments_def Let_def)

text \<open>
  C7. After a reset and any sequence of actions there are 40 live segments, the number
  the reset spawns. A recycle step on a window of at least two segments drops the first
  segment exactly when its \<open>z\<close> is above 100, and then appends one new segment, placed
  one segment length beyond the last; otherwise the window stays as it is.
\<close>

theorem segment_window_constant:
  "(\<exists>g'. run acts (resetGame fullReset g0) = Some g' \<and> length (segmentsRef g') = 40)
 \<and> (2 \<le> length (segmentsRef g) \<longrightarrow>
      segmentsRef (recycleSegments g) =
        (if segZ g (hd (segmentsRef g)) > 100 then tl (segmentsRef g) @ [nextSeg g]
         else segmentsRef g))
 \<and> (2 \<le> length (segmentsRef g) \<and> segZ g (hd (segmentsRef g)) > 100 \<longrightarrow>
      segZ (recycleSegments g) (nextSeg g) = segZ g (last (segmentsRef g)) - SEGMENT_LENGTH)"
proof -
  obtain g' where r: "run acts (resetGame fullReset g0) = Some g'" using run_total by blast
  have "length (segmentsRef (resetGame fullReset g0)) = 40" by (rule resetGame_segments)
  from this r have "length (segmentsRef g') = 40" by (rule run_length)
  with r show ?thesis by (simp add: recycle_shape recycle_position)
qed

text \<open>A window of two segments at \<open>z = 101\<close> and \<open>z = 93\<close>: the first is dropped and
  segment 2 is appended at \<open>z = 85\<close>. And a new game has 40 segments.\<close>

theorem segment_window_constant_witness:
  "2 \<le> length (segmentsRef ((initialGame (\<lambda>_. 19 / 20))\<lparr>segmentsRef := [0, 1],
        segZ := (\<lambda>_. 0)(0 := 101, 1 := 93), nextSeg := 2\<rparr>))
 \<and> segZ ((initialGame (\<lambda>_. 19 / 20))\<lparr>segmentsRef := [0, 1],
        segZ := (\<lambda>_. 0)(0 := 101, 1 := 93), nextSeg := 2\<rparr>)
      (hd (segmentsRef ((initialGame (\<lambda>_. 19 / 20))\<lparr>segmentsRef := [0, 1],
        segZ := (\<lambda>_. 0)(0 := 101, 1 := 93), nextSeg := 2\<rparr>))) > 100
 \<and> segmentsRef (recycleSegments ((initialGame (\<lambda>_. 19 / 20))\<lparr>segmentsRef := [0, 1],
        segZ := (\<lambda>_. 0)(0 := 101, 1 := 93), nextSeg := 2\<rparr>)) = [1, 2]
 \<and> segZ (recycleSegments ((initialGame (\<lambda>_. 19 / 20))\<lparr>segmentsRef := [0, 1],
        segZ := (\<lambda>_. 0)(0 := 101, 1 := 93), nextSeg := 2\<rparr>)) 2 = 85
 \<and> length (segmentsRef (resetGame True (initialGame (\<lambda>_. 19 / 20)))) = 40"
  using segment_window_constant [of "[]" True "initialGame (\<lambda>_. 19 / 20)"
      "(initialGame (\<lambda>_. 19 / 20))\<lparr>segmentsRef := [0, 1],
        segZ := (\<lambda>_. 0)(0 := 101, 1 := 93), nextSeg := 2\<rparr>"]
  by (simp add: SEGMENT_LENGTH_def initialGame_def)

section \<open>Health\<close>

text \<open>
  C2, as the code has it. From a new game, after any sequence of actions, health is at
  most 100 and a multiple of 20. A HEART adds 20 capped at 100; a resolution that is not
  a HEART, a SPEED_BOOST or a CLOCK_BLUE subtracts 20, with no floor. So a resolution
  that starts from positive health leaves health at 0 or above, and never above 100.
  Every resolution that leaves health at 0 or below calls \<open>setGameState(GAME_OVER)\<close>,
  and no other does.
\<close>

theorem health_bounds_from_new_game:
  "\<exists>g. run acts (resetGame True g0) = Some g
       \<and> healthRef g \<le> 100 \<and> 20 dvd healthRef g
       \<and> healthRef (applyEffect HEART g) = min 100 (healthRef g + 20)
       \<and> (ty \<notin> {HEART, SPEED_BOOST, CLOCK_BLUE} \<longrightarrow>
            healthRef (applyEffect ty g) = healthRef g - 20)
       \<and> (0 < healthRef g \<longrightarrow> 0 \<le> healthRef (applyEffect ty g))
       \<and> healthRef (applyEffect ty g) \<le> 100
       \<and> stateRequests (checkGameOver (applyEffect ty g)) =
            stateRequests g @ (if healthRef (applyEffect ty g) \<le> 0 then [GAME_OVER] else [])"
proof -
  obtain g where r: "run acts (resetGame True g0) = Some g" using run_total by blast
  have "healthy (resetGame True g0)" by (simp add: healthy_def resetGame_health)
  from this r have h: "healthy g" by (rule run_healthy)
  then have 1: "healthRef g \<le> 100" "20 dvd healthRef g" by (simp_all add: healthy_def)
  have 2: "healthRef (applyEffect HEART g) = min 100 (healthRef g + 20)"
    by (simp add: applyEffect_def MAX_HEALTH_def)
  have 3: "ty \<notin> {HEART, SPEED_BOOST, CLOCK_BLUE} \<longrightarrow>
      healthRef (applyEffect ty g) = healthRef g - 20"
    by (simp add: applyEffect_def)
  from 1 have "0 < healthRef g \<longrightarrow> 20 \<le> healthRef g" by (auto elim!: dvdE)
  with 1 have 4: "0 < healthRef g \<longrightarrow> 0 \<le> healthRef (applyEffect ty g)"
    by (auto simp: applyEffect_def MAX_HEALTH_def)
  from 1 have 5: "healthRef (applyEffect ty g) \<le> 100"
    by (auto simp: applyEffect_def MAX_HEALTH_def)
  have 6: "stateRequests (checkGameOver (applyEffect ty g)) =
      stateRequests g @ (if healthRef (applyEffect ty g) \<le> 0 then [GAME_OVER] else [])"
    by (simp add: checkGameOver_def applyEffect_def)
  from r 1 2 3 4 5 6 show ?thesis by blast
qed

text \<open>A WALL resolved right after a new game: health 80, no call of \<open>setGameState\<close>.\<close>

theorem health_bounds_from_new_game_witness:
  "WALL \<notin> {HEART, SPEED_BOOST, CLOCK_BLUE}
   \<and> 0 < healthRef (resetGame True (initialGame (\<lambda>_. 19 / 20)))
   \<and> healthRef (applyEffect WALL (resetGame True (initialGame (\<lambda>_. 19 / 20)))) = 80
   \<and> stateRequests (checkGameOver (applyEffect WALL
        (resetGame True (initialGame (\<lambda>_. 19 / 20)))))
       = stateRequests (resetGame True (initialGame (\<lambda>_. 19 / 20)))"
  using health_bounds_from_new_game [of "[]" "initialGame (\<lambda>_. 19 / 20)" WALL]
  by (simp add: resetGame_health)

text \<open>
  C2 as stated fails. A new game with the draws of \<open>hitStream\<close>, set to PLAYING, then
  the frames at 100 ms and 200 ms with no input: the first frame resolves four DOORs in
  lane 0 and leaves health 20; the second resolves two BULLETs in lane 0, the first
  taking health to 0, the second to -20, and each calls \<open>setGameState(GAME_OVER)\<close>.
  What \<open>observed\<close> shows at the end: health -20, score 16/5, speed multiplier 1, its
  timer 0, six DAMAGE events and two GAME_OVER requests.
\<close>

theorem health_below_zero_counterexample:
  "map_option observed
     (run [StartNewGame, PropGameState PLAYING, Frame 100, Frame 200] (initialGame hitStream))
   = Some (- 20, 16 / 5, 1, 0, [DAMAGE, DAMAGE, DAMAGE, DAMAGE, DAMAGE, DAMAGE],
           [GAME_OVER, GAME_OVER])"
  by (simp add: eval_defs hitStream_def del: One_nat_def)

section \<open>Jumping over a BALL\<close>

text \<open>
  C4 at a BALL as \<open>spawnObstacle\<close> makes it. With every draw at 0.3 the obstacle
  spawned is a BALL in lane 3 at \<open>z = 4.5\<close>, and its \<open>vertical\<close> flag is false. With
  the player in lane 3 and the BALL in the band, a jump height of 2 leaves the BALL
  and the game untouched; at jump height 0 the same BALL costs 20 health.
\<close>

theorem ball_cleared_by_jump:
  "obstaclesRef (spawnObstacle 0 (initialGame ballStream)) = [obstacleAt BALL 3 (9 / 2)]
  \<and> vertical (obstacleAt BALL 3 (9 / 2)) = False
  \<and> collideObstacle (1 / 60) 2 (obstacleAt BALL 3 (9 / 2))
        ((initialGame ballStream)\<lparr>currentLane := 3\<rparr>)
      = (obstacleAt BALL 3 (9 / 2), (initialGame ballStream)\<lparr>currentLane := 3\<rparr>)
  \<and> healthRef (snd (collideObstacle (1 / 60) 0 (obstacleAt BALL 3 (9 / 2))
        ((initialGame ballStream)\<lparr>currentLane := 3\<rparr>))) = 80"
  by (simp add: spawnObstacle_pushes initialGame_def obstacleAt_def pickType_def pickLane_def
      zPosOf_def tileRowOf_def LANE_COUNT_ROUND_def LANE_WIDTH_def SPEED_BASE_def ballStream_def
      collideObstacle_def moveObstacle_def obsWorldZ_def isHit_def playerLane_def jsRound_def
      jsRem_def applyEffect_def checkGameOver_def removeObstacle_def MAX_HEALTH_def)

section \<open>The lane check on the square tracks\<close>

text \<open>The same input on the glowing square track and on the tube: a new game set to
  PLAYING, one step left from lane 0, and one frame of 1/12 s, with a WALL in lane 11
  entering the band in that frame.\<close>

lemma square_run:
  "map_option (\<lambda>g. (laneView g, healthRef g, events g))
     (run [StartNewGame, PropGameState PLAYING, PropDebugPhase TUNNEL_GLOWING, MoveLeft,
           Frame (250 / 3)] (initialGame (wallStream 50)))
   = Some ((TUNNEL_GLOWING, 11, - 1, [(WALL, 11, False, - 7 / 6)]), 100, [])"
  by (simp add: eval_defs wallStream_def del: One_nat_def)

lemma tube_run:
  "map_option (\<lambda>g. (laneView g, healthRef g, events g))
     (run [StartNewGame, PropGameState PLAYING, MoveLeft, Frame (250 / 3)]
        (initialGame (wallStream 10)))
   = Some ((ROUND, 11, 11, [(WALL, 11, True, - 5 / 2)]), 80, [DAMAGE])"
  by (simp add: eval_defs wallStream_def del: One_nat_def)

text \<open>
  C6 on the code. On the glowing square track the target lane is 11, the eased lane is
  -1 and the lane compared is -1, not wrapped: the WALL in lane 11, at \<open>distZ = -7/6\<close>
  inside the band, is not hit, health stays 100 and no event fires. On the tube the
  lane compared is wrapped to 11 and the same WALL is hit.
\<close>

theorem square_lane_not_wrapped:
  "map_option (\<lambda>g. (laneView g, healthRef g, events g))
     (run [StartNewGame, PropGameState PLAYING, PropDebugPhase TUNNEL_GLOWING, MoveLeft,
           Frame (250 / 3)] (initialGame (wallStream 50)))
   = Some ((TUNNEL_GLOWING, 11, - 1, [(WALL, 11, False, - 7 / 6)]), 100, [])
  \<and> map_option (\<lambda>g. (laneView g, healthRef g, events g))
     (run [StartNewGame, PropGameState PLAYING, MoveLeft, Frame (250 / 3)]
        (initialGame (wallStream 10)))
   = Some ((ROUND, 11, 11, [(WALL, 11, True, - 5 / 2)]), 80, [DAMAGE])"
  using square_run tube_run by (rule conjI)

end
